theory Spec2Isabelle
  imports Complex_Main "HOL-Library.Word" "HOL-Library.Multiset" "HOL-Library.AList"
begin

section \<open>pmpsdb\_client: the ftp file transfer interface\<close>

text \<open>
  A shallow embedding of \<^verbatim>\<open>pmpsdb_client/ftp_data.py\<close>. Python exceptions are values of
  the type \<open>error\<close>, and a function that may raise returns \<open>error + 'a\<close> with \<open>Inl\<close> for
  the exception. Only subclasses of \<^verbatim>\<open>Exception\<close> are modelled. Calls of
  \<^verbatim>\<open>logger.debug\<close> are left out.
\<close>

subsection \<open>Exceptions\<close>

datatype error =
    error_perm | error_temp | error_reply | error_proto
  | OSError | EOFError | RuntimeError | ValueError | OverflowError
  | UnicodeDecodeError | JSONDecodeError | TypeError | AttributeError

text \<open>Sequencing: the first exception raised ends the computation.\<close>

definition bind_err :: "error + 'a \<Rightarrow> ('a \<Rightarrow> error + 'b) \<Rightarrow> error + 'b" where
  "bind_err m f = (case m of Inl e \<Rightarrow> Inl e | Inr x \<Rightarrow> f x)"

subsection \<open>Strings\<close>

text \<open>
  A Python \<^verbatim>\<open>str\<close> is modelled as a \<open>string\<close>: the characters are the code points
  below 256. A \<^verbatim>\<open>bytes\<close> object is a list of 8-bit words.
\<close>

type_synonym byte = "8 word"

text \<open>\<^verbatim>\<open>str.isspace\<close> on the code points below 256.\<close>

definition is_space :: "char \<Rightarrow> bool" where
  "is_space c = (c \<in> set [CHR 0x09, CHR 0x0A, CHR 0x0B, CHR 0x0C, CHR 0x0D,
                          CHR 0x1C, CHR 0x1D, CHR 0x1E, CHR 0x1F, CHR 0x20,
                          CHR 0x85, CHR 0xA0])"

text \<open>
  \<^verbatim>\<open>str.split()\<close> without a separator: runs of whitespace separate the tokens, and
  leading and trailing whitespace gives no empty token. The first argument is the
  token being read.
\<close>

fun split_ws :: "string \<Rightarrow> string \<Rightarrow> string list" where
  "split_ws cur [] = (if cur = [] then [] else [cur])"
| "split_ws cur (c # cs) =
     (if is_space c then (if cur = [] then split_ws [] cs else cur # split_ws [] cs)
      else split_ws (cur @ [c]) cs)"

definition py_split :: "string \<Rightarrow> string list" where
  "py_split s = split_ws [] s"

text \<open>
  \<^verbatim>\<open>str.split(sep)\<close> with a separator of one character: every occurrence separates,
  and empty tokens are kept.
\<close>

fun split_on :: "char \<Rightarrow> string \<Rightarrow> string \<Rightarrow> string list" where
  "split_on sep cur [] = [cur]"
| "split_on sep cur (c # cs) =
     (if c = sep then cur # split_on sep [] cs else split_on sep (cur @ [c]) cs)"

definition py_split_sep :: "string \<Rightarrow> char \<Rightarrow> string list" where
  "py_split_sep s sep = split_on sep [] s"

text \<open>
  \<^verbatim>\<open>int(s)\<close> in base 10: whitespace around the number is dropped, one sign is
  allowed, and single underscores may stand between digits. Anything else is a
  \<^verbatim>\<open>ValueError\<close>. The limit on the number of digits of Python 3.11 (also a
  \<^verbatim>\<open>ValueError\<close>) is not modelled.
\<close>

definition is_digit :: "char \<Rightarrow> bool" where
  "is_digit c = (c \<in> set ''0123456789'')"

definition digit_val :: "char \<Rightarrow> int" where
  "digit_val c = int (of_char c) - 48"

definition strip :: "string \<Rightarrow> string" where
  "strip s = rev (dropWhile is_space (rev (dropWhile is_space s)))"

text \<open>
  The digits after the sign, with the value read so far. The flag says whether the
  last character was a digit, so that an underscore is allowed next.
\<close>

fun digits_val :: "int \<Rightarrow> bool \<Rightarrow> string \<Rightarrow> int option" where
  "digits_val acc after_digit [] = (if after_digit then Some acc else None)"
| "digits_val acc after_digit (c # cs) =
     (if is_digit c then digits_val (10 * acc + digit_val c) True cs
      else if c = CHR ''_'' \<and> after_digit then digits_val acc False cs
      else None)"

definition py_int :: "string \<Rightarrow> error + int" where
  "py_int s =
     (case strip s of
        [] \<Rightarrow> Inl ValueError
      | c # cs \<Rightarrow>
          (if c = CHR ''-'' then
             (case digits_val 0 False cs of None \<Rightarrow> Inl ValueError | Some n \<Rightarrow> Inr (- n))
           else if c = CHR ''+'' then
             (case digits_val 0 False cs of None \<Rightarrow> Inl ValueError | Some n \<Rightarrow> Inr n)
           else
             (case digits_val 0 False (c # cs) of None \<Rightarrow> Inl ValueError | Some n \<Rightarrow> Inr n)))"

subsection \<open>\<^verbatim>\<open>datetime.datetime\<close>\<close>

record datetime =
  year :: int
  month :: int
  day :: int
  hour :: int
  minute :: int
  second :: int
  microsecond :: int

definition is_leap :: "int \<Rightarrow> bool" where
  "is_leap y = (y mod 4 = 0 \<and> (y mod 100 \<noteq> 0 \<or> y mod 400 = 0))"

definition days_in_month :: "int \<Rightarrow> int \<Rightarrow> int" where
  "days_in_month y m =
     (if m = 2 then (if is_leap y then 29 else 28)
      else if m = 4 \<or> m = 6 \<or> m = 9 \<or> m = 11 then 30 else 31)"

definition fits_c_int :: "int \<Rightarrow> bool" where
  "fits_c_int n = (- (2 ^ 31) \<le> n \<and> n < 2 ^ 31)"

text \<open>
  The constructor \<^verbatim>\<open>datetime.datetime(year, month, day, hour, minute)\<close>: every
  argument is converted to a C \<^verbatim>\<open>int\<close> (an \<^verbatim>\<open>OverflowError\<close> when it does not fit),
  then the date and the time are checked against their ranges (a \<^verbatim>\<open>ValueError\<close>).
  Seconds and microseconds take their default 0.
\<close>

definition mk_datetime :: "int \<Rightarrow> int \<Rightarrow> int \<Rightarrow> int \<Rightarrow> int \<Rightarrow> error + datetime" where
  "mk_datetime y mo d h mi =
     (if \<not> (fits_c_int y \<and> fits_c_int mo \<and> fits_c_int d \<and> fits_c_int h \<and> fits_c_int mi)
        then Inl OverflowError
      else if y < 1 \<or> 9999 < y then Inl ValueError
      else if mo < 1 \<or> 12 < mo then Inl ValueError
      else if d < 1 \<or> days_in_month y mo < d then Inl ValueError
      else if h < 0 \<or> 23 < h then Inl ValueError
      else if mi < 0 \<or> 59 < mi then Inl ValueError
      else Inr \<lparr>year = y, month = mo, day = d, hour = h, minute = mi,
                second = 0, microsecond = 0\<rparr>)"

subsection \<open>\<^verbatim>\<open>PLCFile\<close>\<close>

record PLCFile =
  filename :: string
  create_time :: datetime
  fsize :: int

text \<open>
  \<^verbatim>\<open>PLCFile.from_list_line\<close>; the field \<^verbatim>\<open>size\<close> is \<open>fsize\<close> here. The three
  tuple assignments raise \<^verbatim>\<open>ValueError\<close> when the number of tokens is not the number
  of targets. The arguments of the \<^verbatim>\<open>datetime\<close> call are evaluated from left to
  right, then the constructor runs, then \<^verbatim>\<open>int(size)\<close>.
\<close>

definition from_list_line :: "string \<Rightarrow> error + PLCFile" where
  "from_list_line line =
     (case py_split line of
        [date, time, sz, fname] \<Rightarrow>
          (case py_split_sep date CHR ''-'' of
             [mo, d, y] \<Rightarrow>
               (case py_split_sep time CHR '':'' of
                  [h, mi] \<Rightarrow>
                    bind_err (py_int y) (\<lambda>yv.
                    bind_err (py_int mo) (\<lambda>mov.
                    bind_err (py_int d) (\<lambda>dv.
                    bind_err (py_int h) (\<lambda>hv.
                    bind_err (py_int mi) (\<lambda>miv.
                    bind_err (mk_datetime (yv + 2000) mov dv hv miv) (\<lambda>full_datetime.
                    bind_err (py_int sz) (\<lambda>szv.
                      Inr \<lparr>filename = fname, create_time = full_datetime,
                           fsize = szv\<rparr>)))))))
                | _ \<Rightarrow> Inl ValueError)
           | _ \<Rightarrow> Inl ValueError)
      | _ \<Rightarrow> Inl ValueError)"


subsection \<open>JSON values and their equality\<close>

text \<open>
  The objects that \<^verbatim>\<open>json.loads\<close> builds: \<^verbatim>\<open>None\<close>, \<^verbatim>\<open>bool\<close>, \<^verbatim>\<open>int\<close>, \<^verbatim>\<open>float\<close>, \<^verbatim>\<open>str\<close>,
  \<^verbatim>\<open>list\<close> and \<^verbatim>\<open>dict\<close>.

  \<^item> A finite \<^verbatim>\<open>float\<close> is \<open>JFloat m e\<close>, the number \<open>m\<close> times 2 to the power \<open>e\<close>: every
    finite double has this form, and the comparisons of Python are exact on it.
    \<open>JInf True\<close> and \<open>JInf False\<close> are \<^verbatim>\<open>inf\<close> and \<^verbatim>\<open>-inf\<close>.
  \<^item> \<open>JNaN\<close> is the object \<^verbatim>\<open>json.decoder.NaN\<close>: the parser returns this one object for
    every \<^verbatim>\<open>NaN\<close> in a text.
  \<^item> A \<^verbatim>\<open>dict\<close> is the list of its items in insertion order; its keys are distinct
    (\<open>wf_json\<close>).
\<close>

datatype json =
    JNone | JBool bool | JInt int | JFloat int int | JInf bool | JNaN | JStr string
  | JList "json list" | JDict "(string \<times> json) list"

fun wf_json :: "json \<Rightarrow> bool" where
  "wf_json (JList xs) = list_all wf_json xs"
| "wf_json (JDict kvs) = (distinct (map fst kvs) \<and> list_all (\<lambda>kv. wf_json (snd kv)) kvs)"
| "wf_json _ = True"

text \<open>
  The number that a \<^verbatim>\<open>bool\<close>, an \<^verbatim>\<open>int\<close> or a finite \<^verbatim>\<open>float\<close> stands for: \<^verbatim>\<open>bool\<close> is a
  subclass of \<^verbatim>\<open>int\<close> with \<^verbatim>\<open>True\<close> as 1 and \<^verbatim>\<open>False\<close> as 0.
\<close>

fun number :: "json \<Rightarrow> rat option" where
  "number (JBool b) = Some (if b then 1 else 0)"
| "number (JInt n) = Some (of_int n)"
| "number (JFloat m e) = Some (of_int m * 2 powi e)"
| "number _ = None"

text \<open>
  The comparison of two items of a list or of two values of a dict
  (\<^verbatim>\<open>PyObject_RichCompareBool\<close>): an object is equal to itself, which makes the object
  \<open>JNaN\<close> equal to itself here, and otherwise \<^verbatim>\<open>==\<close> decides. Two lists are equal
  when they have the same length and equal items at every index. Two dicts are
  equal when they have the same number of items and every key of the first is a
  key of the second with an equal value. Numbers of the three kinds are equal when
  they are the same number (\<^verbatim>\<open>True == 1 == 1.0\<close>). Objects of different kinds are
  otherwise unequal.
\<close>

fun py_eq_in :: "json \<Rightarrow> json \<Rightarrow> bool" where
  "py_eq_in JNone JNone = True"
| "py_eq_in JNaN JNaN = True"
| "py_eq_in (JInf a) (JInf b) = (a = b)"
| "py_eq_in (JStr s) (JStr t) = (s = t)"
| "py_eq_in (JList xs) (JList ys) = list_all2 py_eq_in xs ys"
| "py_eq_in (JDict a) (JDict b) =
     (length a = length b \<and>
      list_all (\<lambda>kv. case map_of b (fst kv) of None \<Rightarrow> False
                                                | Some w \<Rightarrow> py_eq_in (snd kv) w) a)"
| "py_eq_in v w =
     (case number v of
        None \<Rightarrow> False
      | Some x \<Rightarrow> (case number w of None \<Rightarrow> False | Some y \<Rightarrow> x = y))"

text \<open>
  Python's \<^verbatim>\<open>==\<close> on two objects: as above, but \<^verbatim>\<open>nan == nan\<close> is false also for the
  same object.
\<close>

definition py_eq :: "json \<Rightarrow> json \<Rightarrow> bool" where
  "py_eq v w = (if v = JNaN \<and> w = JNaN then False else py_eq_in v w)"

subsection \<open>The libraries and the world\<close>

text \<open>
  The module talks to the PLC through \<^verbatim>\<open>ftplib\<close>, reads local files with \<^verbatim>\<open>open\<close> and
  parses with \<^verbatim>\<open>json\<close>. These are not code of the module: they are the fields of a
  record, over any type \<open>'s\<close> of states of the world and any type \<open>'c\<close> of
  \<^verbatim>\<open>ftplib.FTP\<close> objects. A library call takes the state and returns its result, or
  the exception it raises, with the new state.

  \<^item> \<open>FTP h\<close> is \<^verbatim>\<open>ftplib.FTP(h, timeout=2.0)\<close>, which connects to the host;
  \<^item> \<open>login c None\<close> is \<^verbatim>\<open>c.login()\<close> and \<open>login c (Some (user, pwd))\<close> is
    \<^verbatim>\<open>c.login(user=user, passwd=pwd)\<close>; the result is the value returned, which the
    module compares with \<^verbatim>\<open>None\<close>;
  \<^item> \<open>retrlines\<close> and \<open>retrbinary\<close> return the lines and the chunks that they hand to
    the callback, in order;
  \<^item> \<open>storbinary c cmd fd\<close> gets the bytes that the file object \<open>fd\<close> yields;
  \<^item> \<open>open_rb\<close> and \<open>open_r\<close> give the whole content of a local file, as bytes and as
    text; \<open>json_loads\<close> is \<^verbatim>\<open>json.loads\<close>.
\<close>

type_synonym credentials = "string \<times> string"

type_synonym ('s, 'a) io = "'s \<Rightarrow> (error + 'a) \<times> 's"

record ('s, 'c) lib =
  FTP :: "string \<Rightarrow> ('s, 'c) io"
  set_pasv :: "'c \<Rightarrow> bool \<Rightarrow> 's \<Rightarrow> 's"
  login :: "'c \<Rightarrow> credentials option \<Rightarrow> ('s, string option) io"
  nlst :: "'c \<Rightarrow> ('s, string list) io"
  mkd :: "'c \<Rightarrow> string \<Rightarrow> ('s, unit) io"
  cwd :: "'c \<Rightarrow> string \<Rightarrow> ('s, unit) io"
  retrlines :: "'c \<Rightarrow> string \<Rightarrow> ('s, string list) io"
  storbinary :: "'c \<Rightarrow> string \<Rightarrow> byte list \<Rightarrow> ('s, unit) io"
  retrbinary :: "'c \<Rightarrow> string \<Rightarrow> ('s, byte list list) io"
  quit :: "'c \<Rightarrow> ('s, unit) io"
  close :: "'c \<Rightarrow> ('s, unit) io"
  open_rb :: "string \<Rightarrow> 's \<Rightarrow> error + byte list"
  open_r :: "string \<Rightarrow> 's \<Rightarrow> error + string"
  json_loads :: "string \<Rightarrow> error + json"

definition bind_io :: "('s, 'a) io \<Rightarrow> ('a \<Rightarrow> ('s, 'b) io) \<Rightarrow> ('s, 'b) io" where
  "bind_io m f s = (case m s of (Inl e, s') \<Rightarrow> (Inl e, s') | (Inr x, s') \<Rightarrow> f x s')"

definition return_io :: "'a \<Rightarrow> ('s, 'a) io" where
  "return_io x s = (Inr x, s)"

definition raise_io :: "error \<Rightarrow> ('s, 'a) io" where
  "raise_io e s = (Inl e, s)"

text \<open>A computation that does not touch the world.\<close>

definition pure_io :: "error + 'a \<Rightarrow> ('s, 'a) io" where
  "pure_io r s = (r, s)"

subsection \<open>The context manager \<^verbatim>\<open>ftp\<close>\<close>

definition DEFAULT_PW :: "credentials list" where
  "DEFAULT_PW = [(''Administrator'', ''1''), (''webguest'', ''1'')]"

definition DIRECTORY :: string where
  "DIRECTORY = ''pmps''"

text \<open>\<^verbatim>\<open>x or y\<close> for an optional string \<open>x\<close>: \<^verbatim>\<open>None\<close> and the empty string are falsy.\<close>

definition py_or :: "string option \<Rightarrow> string \<Rightarrow> string" where
  "py_or x y = (case x of None \<Rightarrow> y | Some s \<Rightarrow> if s = [] then y else s)"

text \<open>
  The loop over \<^verbatim>\<open>DEFAULT_PW\<close>, with the variable \<^verbatim>\<open>rval\<close>. A login that returns
  assigns \<^verbatim>\<open>rval\<close>; \<^verbatim>\<open>ftplib.error_perm\<close> is caught and passed over; any other
  exception leaves the loop and the function. The loop has no \<^verbatim>\<open>break\<close>.
\<close>

fun try_defaults ::
  "('s, 'c) lib \<Rightarrow> 'c \<Rightarrow> credentials list \<Rightarrow> string option \<Rightarrow> ('s, string option) io" where
  "try_defaults L ftp_obj [] rval s = (Inr rval, s)"
| "try_defaults L ftp_obj (up # rest) rval s =
     (case login L ftp_obj (Some up) s of
        (Inr r, s') \<Rightarrow> try_defaults L ftp_obj rest r s'
      | (Inl e, s') \<Rightarrow>
          if e = error_perm then try_defaults L ftp_obj rest rval s' else (Inl e, s'))"

text \<open>The body of \<^verbatim>\<open>ftp\<close> up to the \<^verbatim>\<open>yield\<close>; the result is the object yielded.\<close>

definition ftp_enter :: "('s, 'c) lib \<Rightarrow> string \<Rightarrow> string option \<Rightarrow> ('s, 'c) io" where
  "ftp_enter L hostname directory =
     bind_io (FTP L hostname) (\<lambda>ftp_obj.
     bind_io (\<lambda>s. (Inr (), set_pasv L ftp_obj False s)) (\<lambda>_.
     bind_io (try_defaults L ftp_obj DEFAULT_PW None) (\<lambda>rval.
     bind_io (if rval = None then login L ftp_obj None else return_io rval) (\<lambda>rval.
     bind_io (if rval = None then raise_io RuntimeError else return_io ()) (\<lambda>_.
     bind_io (nlst L ftp_obj) (\<lambda>names.
     bind_io (if py_or directory DIRECTORY \<notin> set names
              then mkd L ftp_obj (py_or directory DIRECTORY) else return_io ()) (\<lambda>_.
     bind_io (cwd L ftp_obj (py_or directory DIRECTORY)) (\<lambda>_.
     return_io ftp_obj))))))))"

text \<open>
  The body of \<^verbatim>\<open>ftp\<close> after the \<^verbatim>\<open>yield\<close>: \<^verbatim>\<open>quit\<close>, and \<^verbatim>\<open>close\<close> when \<^verbatim>\<open>quit\<close> raises
  (\<^verbatim>\<open>except Exception\<close> catches every exception of the model).
\<close>

definition ftp_exit :: "('s, 'c) lib \<Rightarrow> 'c \<Rightarrow> ('s, unit) io" where
  "ftp_exit L ftp_obj s =
     (case quit L ftp_obj s of
        (Inr u, s') \<Rightarrow> (Inr (), s')
      | (Inl e, s') \<Rightarrow> close L ftp_obj s')"

text \<open>
  \<^verbatim>\<open>with ftp(hostname=hostname, directory=directory) as ftp_obj: body\<close>. The function
  is a generator under \<^verbatim>\<open>contextlib.contextmanager\<close>. Entering runs it up to the
  \<^verbatim>\<open>yield\<close>; an exception there leaves the statement before the body runs. When the
  body ends normally (also by \<^verbatim>\<open>return\<close>) the generator is resumed and runs the code
  after the \<^verbatim>\<open>yield\<close>. When the body raises, the exception is thrown into the
  generator at the \<^verbatim>\<open>yield\<close>, which stands in no \<^verbatim>\<open>try\<close> block: the generator ends
  there and the exception leaves the statement.
\<close>

definition with_ftp ::
  "('s, 'c) lib \<Rightarrow> string \<Rightarrow> string option \<Rightarrow> ('c \<Rightarrow> ('s, 'a) io) \<Rightarrow> ('s, 'a) io" where
  "with_ftp L hostname directory body s =
     (case ftp_enter L hostname directory s of
        (Inl e, s1) \<Rightarrow> (Inl e, s1)
      | (Inr ftp_obj, s1) \<Rightarrow>
          (case body ftp_obj s1 of
             (Inl e, s2) \<Rightarrow> (Inl e, s2)
           | (Inr v, s2) \<Rightarrow>
               (case ftp_exit L ftp_obj s2 of
                  (Inl e, s3) \<Rightarrow> (Inl e, s3)
                | (Inr u, s3) \<Rightarrow> (Inr v, s3))))"

subsection \<open>The operations\<close>

definition list_filenames :: "('s, 'c) lib \<Rightarrow> string \<Rightarrow> string option \<Rightarrow> ('s, string list) io" where
  "list_filenames L hostname directory =
     with_ftp L hostname directory (\<lambda>ftp_obj. nlst L ftp_obj)"


definition upload_file ::
  "('s, 'c) lib \<Rightarrow> string \<Rightarrow> string \<Rightarrow> byte list \<Rightarrow> string option \<Rightarrow> ('s, unit) io" where
  "upload_file L hostname target_filename fd directory =
     with_ftp L hostname directory
       (\<lambda>ftp_obj. storbinary L ftp_obj (''STOR '' @ target_filename) fd)"



text \<open>\<^verbatim>\<open>bytes.decode('ascii')\<close>: strict, a byte above 127 raises.\<close>

definition decode_ascii :: "byte list \<Rightarrow> error + string" where
  "decode_ascii bs =
     (if list_all (\<lambda>b. b < 128) bs then Inr (map (\<lambda>b. char_of (unat b)) bs)
      else Inl UnicodeDecodeError)"

text \<open>The loop \<^verbatim>\<open>for chunk in byte_chunks: contents += chunk.decode('ascii')\<close>.\<close>

fun decode_chunks :: "string \<Rightarrow> byte list list \<Rightarrow> error + string" where
  "decode_chunks contents [] = Inr contents"
| "decode_chunks contents (chunk # rest) =
     bind_err (decode_ascii chunk) (\<lambda>t. decode_chunks (contents @ t) rest)"

text \<open>
  How an f-string formats the file name. The parameter is annotated \<^verbatim>\<open>str\<close>, but
  \<^verbatim>\<open>compare_file\<close> passes its optional \<^verbatim>\<open>plc_filename\<close> on as it is, and \<^verbatim>\<open>None\<close> is
  formatted as the text \<^verbatim>\<open>None\<close>.
\<close>

definition py_format :: "string option \<Rightarrow> string" where
  "py_format x = (case x of None \<Rightarrow> ''None'' | Some s \<Rightarrow> s)"

definition download_file_text ::
  "('s, 'c) lib \<Rightarrow> string \<Rightarrow> string option \<Rightarrow> string option \<Rightarrow> ('s, string) io" where
  "download_file_text L hostname fname directory =
     bind_io (with_ftp L hostname directory
                (\<lambda>ftp_obj. retrbinary L ftp_obj (''RETR '' @ py_format fname)))
       (\<lambda>byte_chunks. pure_io (decode_chunks [] byte_chunks))"

definition download_file_json_dict ::
  "('s, 'c) lib \<Rightarrow> string \<Rightarrow> string option \<Rightarrow> string option \<Rightarrow> ('s, json) io" where
  "download_file_json_dict L hostname fname directory =
     bind_io (download_file_text L hostname fname directory)
       (\<lambda>text. pure_io (json_loads L text))"

definition local_file_json_dict :: "('s, 'c) lib \<Rightarrow> string \<Rightarrow> ('s, json) io" where
  "local_file_json_dict L fname s = (bind_err (open_r L fname s) (json_loads L), s)"

definition compare_file ::
  "('s, 'c) lib \<Rightarrow> string \<Rightarrow> string \<Rightarrow> string option \<Rightarrow> string option \<Rightarrow> ('s, bool) io" where
  "compare_file L hostname local_filename plc_filename directory =
     bind_io (local_file_json_dict L local_filename) (\<lambda>local_data.
     bind_io (download_file_json_dict L hostname plc_filename directory) (\<lambda>plc_data.
     return_io (py_eq local_data plc_data)))"

subsection \<open>A PLC that stores files\<close>

text \<open>
  One instance of the libraries, used to run the module: a world with a single PLC
  that keeps what is stored on it. It is a model of the environment, not of code of
  the module.

  \<^item> Only the host \<open>plc_name\<close> answers; connecting to another raises \<^verbatim>\<open>OSError\<close>.
    With the empty host name \<^verbatim>\<open>ftplib.FTP\<close> does not connect: the object has no socket,
    and what needs the socket raises \<^verbatim>\<open>AttributeError\<close>, as it does after \<^verbatim>\<open>close\<close>.
  \<^item> \<^verbatim>\<open>ftplib\<close> sends no command that holds a carriage return or a line feed: it
    raises \<^verbatim>\<open>ValueError\<close>.
  \<^item> A login with a credential in \<open>accepts\<close> (\<open>None\<close> is the anonymous login) returns
    the reply of the server. Any other login raises \<^verbatim>\<open>ftplib.error_perm\<close> and leaves
    the connection logged out, also when an earlier login on it was accepted: a new
    \<^verbatim>\<open>USER\<close> command flushes the login (RFC 959). Every login is recorded in
    \<open>attempts\<close>.
  \<^item> A connection that is not logged in gets \<^verbatim>\<open>error_perm\<close> for every command on files
    and directories.
  \<^item> The root holds the directories \<open>dirs\<close>; a file is stored under its directory
    and name with the time \<open>now\<close> of the store. The server takes plain names only
    (\<open>plain_name\<close>: letters, digits, dot, hyphen and underscore, not \<^verbatim>\<open>.\<close> or \<^verbatim>\<open>..\<close>) and
    refuses every other name with \<^verbatim>\<open>error_perm\<close>, so no path is interpreted. The
    listing of an empty directory is the empty list. A file is sent in blocks of
    8192 bytes.
  \<^item> \<^verbatim>\<open>quit\<close> raises \<open>quit_error\<close> when there is one, and closes the connection
    otherwise; \<^verbatim>\<open>close\<close> always closes it.
  \<^item> An \<^verbatim>\<open>FTP\<close> object is the index of its connection in \<open>conns\<close>.
  \<^item> Local files hold ASCII text.
\<close>

record conn =
  c_open :: bool
  c_pasv :: bool
  c_user :: "credentials option option"
  c_cwd :: "string option"

type_synonym stamp = "nat \<times> nat \<times> nat \<times> nat \<times> nat"

record plc =
  plc_name :: string
  accepts :: "credentials option list"
  quit_error :: "error option"
  dirs :: "string list"
  files :: "((string \<times> string) \<times> stamp \<times> byte list) list"
  now :: stamp
  conns :: "conn list"
  attempts :: "credentials option list"
  local_files :: "(string \<times> byte list) list"

definition live :: "plc \<Rightarrow> nat \<Rightarrow> bool" where
  "live s c = (c < length (conns s) \<and> c_open (conns s ! c))"

definition logged_in :: "plc \<Rightarrow> nat \<Rightarrow> bool" where
  "logged_in s c = (live s c \<and> c_user (conns s ! c) \<noteq> None)"

definition has_newline :: "string \<Rightarrow> bool" where
  "has_newline cmd = (CHR 0x0D \<in> set cmd \<or> CHR 0x0A \<in> set cmd)"

definition name_char :: "char \<Rightarrow> bool" where
  "name_char c =
     (c \<in> set ''abcdefghijklmnopqrstuvwxyzABCDEFGHIJKLMNOPQRSTUVWXYZ0123456789._-'')"

definition plain_name :: "string \<Rightarrow> bool" where
  "plain_name x = (x \<noteq> [] \<and> list_all name_char x \<and> x \<noteq> ''.'' \<and> x \<noteq> ''..'')"

definition plc_FTP :: "string \<Rightarrow> (plc, nat) io" where
  "plc_FTP h s =
     (if h = []
      then (Inr (length (conns s)),
            s\<lparr>conns := conns s @ [\<lparr>c_open = False, c_pasv = True, c_user = None,
                                     c_cwd = None\<rparr>]\<rparr>)
      else if h = plc_name s
      then (Inr (length (conns s)),
            s\<lparr>conns := conns s @ [\<lparr>c_open = True, c_pasv = True, c_user = None,
                                     c_cwd = None\<rparr>]\<rparr>)
      else (Inl OSError, s))"

definition plc_set_pasv :: "nat \<Rightarrow> bool \<Rightarrow> plc \<Rightarrow> plc" where
  "plc_set_pasv c b s = s\<lparr>conns := (conns s)[c := (conns s ! c)\<lparr>c_pasv := b\<rparr>]\<rparr>"

definition plc_login :: "nat \<Rightarrow> credentials option \<Rightarrow> (plc, string option) io" where
  "plc_login c cred s =
     (if (case cred of None \<Rightarrow> False | Some (user, pwd) \<Rightarrow> has_newline user \<or> has_newline pwd)
      then (Inl ValueError, s)
      else if \<not> live s c then (Inl AttributeError, s)
      else if cred \<in> set (accepts s)
      then (Inr (Some ''230 User logged in.''),
            s\<lparr>conns := (conns s)[c := (conns s ! c)\<lparr>c_user := Some cred\<rparr>],
              attempts := attempts s @ [cred]\<rparr>)
      else (Inl error_perm,
            s\<lparr>conns := (conns s)[c := (conns s ! c)\<lparr>c_user := None\<rparr>],
              attempts := attempts s @ [cred]\<rparr>))"

definition plc_nlst :: "nat \<Rightarrow> (plc, string list) io" where
  "plc_nlst c s =
     (if \<not> live s c then (Inl AttributeError, s)
      else if \<not> logged_in s c then (Inl error_perm, s)
      else case c_cwd (conns s ! c) of
             None \<Rightarrow> (Inr (dirs s), s)
           | Some d \<Rightarrow> (Inr (map (\<lambda>e. snd (fst e)) (filter (\<lambda>e. fst (fst e) = d) (files s))), s))"

definition plc_mkd :: "nat \<Rightarrow> string \<Rightarrow> (plc, unit) io" where
  "plc_mkd c d s =
     (if has_newline d then (Inl ValueError, s)
      else if \<not> live s c then (Inl AttributeError, s)
      else if logged_in s c \<and> plain_name d \<and> c_cwd (conns s ! c) = None \<and> d \<notin> set (dirs s)
      then (Inr (), s\<lparr>dirs := dirs s @ [d]\<rparr>)
      else (Inl error_perm, s))"

definition plc_cwd :: "nat \<Rightarrow> string \<Rightarrow> (plc, unit) io" where
  "plc_cwd c d s =
     (if has_newline d then (Inl ValueError, s)
      else if \<not> live s c then (Inl AttributeError, s)
      else if logged_in s c \<and> plain_name d \<and> c_cwd (conns s ! c) = None \<and> d \<in> set (dirs s)
      then (Inr (), s\<lparr>conns := (conns s)[c := (conns s ! c)\<lparr>c_cwd := Some d\<rparr>]\<rparr>)
      else (Inl error_perm, s))"

text \<open>
  A transfer first sets the type of the transfer, which needs the socket and the
  login; then \<^verbatim>\<open>ftplib\<close> sends the command.
\<close>

definition plc_storbinary :: "nat \<Rightarrow> string \<Rightarrow> byte list \<Rightarrow> (plc, unit) io" where
  "plc_storbinary c cmd fd s =
     (if \<not> live s c then (Inl AttributeError, s)
      else if \<not> logged_in s c then (Inl error_perm, s)
      else if has_newline cmd then (Inl ValueError, s)
      else if take 5 cmd \<noteq> ''STOR '' \<or> \<not> plain_name (drop 5 cmd) then (Inl error_perm, s)
      else case c_cwd (conns s ! c) of
             None \<Rightarrow> (Inl error_perm, s)
           | Some d \<Rightarrow>
               (Inr (), s\<lparr>files := AList.update (d, drop 5 cmd) (now s, fd) (files s)\<rparr>))"

text \<open>The blocks that a transfer hands to the callback: 8192 bytes each, the last one shorter.\<close>

function chunks :: "nat \<Rightarrow> 'a list \<Rightarrow> 'a list list" where
  "chunks n xs = (if n = 0 \<or> xs = [] then [] else take n xs # chunks n (drop n xs))"
  by pat_completeness auto
termination
  by (relation "measure (\<lambda>(n, xs). length xs)") auto

declare chunks.simps [simp del]

definition plc_retrbinary :: "nat \<Rightarrow> string \<Rightarrow> (plc, byte list list) io" where
  "plc_retrbinary c cmd s =
     (if \<not> live s c then (Inl AttributeError, s)
      else if \<not> logged_in s c then (Inl error_perm, s)
      else if has_newline cmd then (Inl ValueError, s)
      else if take 5 cmd \<noteq> ''RETR '' \<or> \<not> plain_name (drop 5 cmd) then (Inl error_perm, s)
      else case c_cwd (conns s ! c) of
             None \<Rightarrow> (Inl error_perm, s)
           | Some d \<Rightarrow>
               (case map_of (files s) (d, drop 5 cmd) of
                  None \<Rightarrow> (Inl error_perm, s)
                | Some (t, bs) \<Rightarrow> (Inr (chunks 8192 bs), s)))"

text \<open>The lines of \<^verbatim>\<open>LIST\<close>, in the format \<^verbatim>\<open>MM-DD-YY  HH:MM <size> <filename>\<close>.\<close>

definition digit_char :: "nat \<Rightarrow> char" where
  "digit_char n = char_of (48 + n mod 10)"

definition two_digits :: "nat \<Rightarrow> string" where
  "two_digits n = [digit_char (n div 10), digit_char n]"

fun show_nat :: "nat \<Rightarrow> string" where
  "show_nat n = (if n < 10 then [digit_char n] else show_nat (n div 10) @ [digit_char n])"

declare show_nat.simps [simp del]

definition list_line :: "(string \<times> string) \<times> stamp \<times> byte list \<Rightarrow> string" where
  "list_line e =
     (case e of ((d, name), (mo, dy, yy, hh, mi), bs) \<Rightarrow>
        two_digits mo @ ''-'' @ two_digits dy @ ''-'' @ two_digits yy @ ''  '' @
        two_digits hh @ '':'' @ two_digits mi @ ''  '' @ show_nat (length bs) @ '' '' @ name)"

definition plc_retrlines :: "nat \<Rightarrow> string \<Rightarrow> (plc, string list) io" where
  "plc_retrlines c cmd s =
     (if \<not> live s c then (Inl AttributeError, s)
      else if \<not> logged_in s c then (Inl error_perm, s)
      else if has_newline cmd then (Inl ValueError, s)
      else if cmd \<noteq> ''LIST'' then (Inl error_perm, s)
      else case c_cwd (conns s ! c) of
             None \<Rightarrow> (Inl error_perm, s)
           | Some d \<Rightarrow> (Inr (map list_line (filter (\<lambda>e. fst (fst e) = d) (files s))), s))"

definition plc_close :: "nat \<Rightarrow> (plc, unit) io" where
  "plc_close c s = (Inr (), s\<lparr>conns := (conns s)[c := (conns s ! c)\<lparr>c_open := False\<rparr>]\<rparr>)"

definition plc_quit :: "nat \<Rightarrow> (plc, unit) io" where
  "plc_quit c s =
     (if \<not> live s c then (Inl AttributeError, s)
      else case quit_error s of
             None \<Rightarrow> plc_close c s
           | Some e \<Rightarrow> (Inl e, s))"

definition plc_open_rb :: "string \<Rightarrow> plc \<Rightarrow> error + byte list" where
  "plc_open_rb path s =
     (case map_of (local_files s) path of None \<Rightarrow> Inl OSError | Some bs \<Rightarrow> Inr bs)"

definition plc_open_r :: "string \<Rightarrow> plc \<Rightarrow> error + string" where
  "plc_open_r path s = bind_err (plc_open_rb path s) decode_ascii"

definition plc_lib :: "(string \<Rightarrow> error + json) \<Rightarrow> (plc, nat) lib" where
  "plc_lib loads =
     \<lparr>FTP = plc_FTP, set_pasv = plc_set_pasv, login = plc_login, nlst = plc_nlst,
      mkd = plc_mkd, cwd = plc_cwd, retrlines = plc_retrlines,
      storbinary = plc_storbinary, retrbinary = plc_retrbinary,
      quit = plc_quit, close = plc_close,
      open_rb = plc_open_rb, open_r = plc_open_r, json_loads = loads\<rparr>"

text \<open>The bytes with the codes of the characters, to write the content of files.\<close>

definition bytes_of :: "string \<Rightarrow> byte list" where
  "bytes_of text = map of_char text"

text \<open>
  The parser is a parameter of the instance. To run \<^verbatim>\<open>compare_file\<close> on examples, this
  one gives what \<^verbatim>\<open>json.loads\<close> gives on seven documents, and rejects every other text.
\<close>

definition toy_loads :: "string \<Rightarrow> error + json" where
  \<open>toy_loads text =
     (if text = ''{}'' then Inr (JDict [])
      else if text = ''{"a": {"b": 1}}'' then Inr (JDict [(''a'', JDict [(''b'', JInt 1)])])
      else if text = ''{"a": {"b": true}}'' then Inr (JDict [(''a'', JDict [(''b'', JBool True)])])
      else if text = ''{"a": {"b": "1"}}'' then Inr (JDict [(''a'', JDict [(''b'', JStr ''1'')])])
      else if text = ''{"a": {"b": 1.0}}'' then Inr (JDict [(''a'', JDict [(''b'', JFloat 1 0)])])
      else if text = ''{"a": {"b": 1, "c": 2}, "d": {}}''
        then Inr (JDict [(''a'', JDict [(''b'', JInt 1), (''c'', JInt 2)]), (''d'', JDict [])])
      else if text = ''{"d": {}, "a": {"c": 2, "b": 1}}''
        then Inr (JDict [(''d'', JDict []), (''a'', JDict [(''c'', JInt 2), (''b'', JInt 1)])])
      else Inl JSONDecodeError)\<close>

text \<open>A PLC that accepts the given logins, with an empty root and no connection.\<close>

definition plc0 :: "credentials option list \<Rightarrow> plc" where
  "plc0 acc =
     \<lparr>plc_name = ''plc-tst'', accepts = acc, quit_error = None, dirs = [],
      files = [], now = (11, 4, 22, 13, 59), conns = [], attempts = [],
      local_files = []\<rparr>"

text \<open>
  A PLC that accepts the anonymous login and holds one file in the directory \<open>pmps\<close>,
  in a world with one local file.
\<close>

definition plc_with :: "string \<Rightarrow> string \<Rightarrow> string \<Rightarrow> string \<Rightarrow> plc" where
  "plc_with remote_name remote_text local_path local_text =
     (plc0 [None])
       \<lparr>dirs := [''pmps''],
        files := [((''pmps'', remote_name), (11, 4, 22, 13, 59), bytes_of remote_text)],
        local_files := [(local_path, bytes_of local_text)]\<rparr>"

text \<open>
  The logins of \<^verbatim>\<open>ftp\<close> leave the connection logged in when the last login that \<^verbatim>\<open>ftp\<close>
  sends is accepted: the second default credential is accepted, or no default
  credential is accepted and the anonymous login is. When only the first default
  credential is accepted, the refused second login flushes it. The host of a
  session has a name that is not empty. The operations leave the name of the host,
  the accepted logins and the clock as they are.
\<close>

definition can_login :: "plc \<Rightarrow> bool" where
  "can_login s =
     (plc_name s \<noteq> [] \<and>
      (Some (''webguest'', ''1'') \<in> set (accepts s) \<or>
       (Some (''Administrator'', ''1'') \<notin> set (accepts s) \<and> None \<in> set (accepts s))))"

definition same_host :: "plc \<Rightarrow> plc \<Rightarrow> bool" where
  "same_host s s' = (plc_name s' = plc_name s \<and> accepts s' = accepts s \<and> now s' = now s)"

subsection \<open>The ConfigDocument of the specification\<close>

text \<open>
  A ConfigDocument maps the name of a device to a mapping from the name of a
  parameter to a scalar value. As an object built by \<^verbatim>\<open>json.loads\<close> it is a dict of
  dicts of scalars.
\<close>

fun is_scalar :: "json \<Rightarrow> bool" where
  "is_scalar (JList xs) = False"
| "is_scalar (JDict kvs) = False"
| "is_scalar _ = True"

definition is_params :: "json \<Rightarrow> bool" where
  "is_params v =
     (case v of JDict ps \<Rightarrow> distinct (map fst ps) \<and> list_all (\<lambda>p. is_scalar (snd p)) ps
      | _ \<Rightarrow> False)"

definition is_config :: "json \<Rightarrow> bool" where
  "is_config v =
     (case v of JDict es \<Rightarrow> distinct (map fst es) \<and> list_all (\<lambda>e. is_params (snd e)) es
      | _ \<Rightarrow> False)"

text \<open>
  Structural equality, in the words of the specification: the two mappings have
  the same set of keys, and the values under each key are related. For the
  documents the relation is that of the parameter mappings, and for these it is
  \<open>same_value\<close>: two values that are booleans or numbers (integers or finite
  floats) are the same when they are the same number, with 1 for true and 0 for
  false; any other two values are the same when they have the same type and value.
\<close>

definition same_items ::
  "('v \<Rightarrow> 'v \<Rightarrow> bool) \<Rightarrow> (string \<times> 'v) list \<Rightarrow> (string \<times> 'v) list \<Rightarrow> bool" where
  "same_items R a b =
     (fst ` set a = fst ` set b \<and>
      (\<forall>k v w. map_of a k = Some v \<and> map_of b k = Some w \<longrightarrow> R v w))"

definition same_value :: "json \<Rightarrow> json \<Rightarrow> bool" where
  "same_value v w =
     (case number v of
        Some x \<Rightarrow> (case number w of Some y \<Rightarrow> x = y | None \<Rightarrow> False)
      | None \<Rightarrow> (case number w of Some y \<Rightarrow> False | None \<Rightarrow> v = w))"

definition params_equal :: "json \<Rightarrow> json \<Rightarrow> bool" where
  "params_equal v w =
     (case v of
        JDict p \<Rightarrow> (case w of JDict q \<Rightarrow> same_items same_value p q | _ \<Rightarrow> False)
      | _ \<Rightarrow> False)"

definition structurally_equal :: "(string \<times> json) list \<Rightarrow> (string \<times> json) list \<Rightarrow> bool" where
  "structurally_equal a b = same_items params_equal a b"

text \<open>
  The content of a document without the order of its entries: the multiset of its
  keys, each with the multiset of the items under it. Two documents with the same
  content are reorderings of each other, at both levels.
\<close>

definition items_of :: "json \<Rightarrow> (string \<times> json) multiset" where
  "items_of v = (case v of JDict ps \<Rightarrow> mset ps | _ \<Rightarrow> {#})"

definition doc_items ::
  "(string \<times> json) list \<Rightarrow> (string \<times> (string \<times> json) multiset) multiset" where
  "doc_items a = mset (map (\<lambda>kv. (fst kv, items_of (snd kv))) a)"

section \<open>Properties\<close>

subsection \<open>The parser of listing lines\<close>

text \<open>
  Claim C6. A listing line that does not split into exactly four tokens at
  whitespace makes \<^verbatim>\<open>PLCFile.from_list_line\<close> raise: the result is the exception
  \<^verbatim>\<open>ValueError\<close> and never a record.
\<close>

theorem from_list_line_wrong_token_count:
  "length (py_split line) \<noteq> 4 \<Longrightarrow> from_list_line line = Inl ValueError"
  by (auto simp: from_list_line_def split: list.splits)

theorem from_list_line_wrong_token_count_witness:
  "length (py_split ''11-04-22  13:59   16439 kfe motion.json'') \<noteq> 4
   \<and> from_list_line ''11-04-22  13:59   16439 kfe motion.json'' = Inl ValueError"
  using from_list_line_wrong_token_count [of "''11-04-22  13:59   16439 kfe motion.json''"]
  by code_simp

text \<open>
  Claim C7. The sample line of the documentation parses to the file name
  \<^verbatim>\<open>kfe-motion.json\<close>, the size 16439 and the time 2022-11-04 13:59: the year of two
  digits is 2000 plus the number read.
\<close>

theorem from_list_line_sample:
  "from_list_line ''11-04-22  13:59                16439 kfe-motion.json'' =
     Inr \<lparr>filename = ''kfe-motion.json'',
          create_time = \<lparr>year = 2022, month = 11, day = 4, hour = 13, minute = 59,
                         second = 0, microsecond = 0\<rparr>,
          fsize = 16439\<rparr>"
  by code_simp

subsection \<open>Decoding the download\<close>

lemma decode_chunks_eq:
  "decode_chunks acc cs =
     (if list_all (\<lambda>b. b < 128) (concat cs)
      then Inr (acc @ map (\<lambda>b. char_of (unat b)) (concat cs))
      else Inl UnicodeDecodeError)"
  by (induction cs arbitrary: acc) (auto simp: decode_ascii_def bind_err_def)

text \<open>
  Claim C8. When the session hands the chunks \<open>cs\<close> to the callback,
  \<^verbatim>\<open>download_file_text\<close> returns the characters of all their bytes in order when
  every byte is below 128, and raises \<^verbatim>\<open>UnicodeDecodeError\<close> when one byte of one
  chunk is not: no byte is replaced or dropped.
\<close>

theorem download_file_text_strict_ascii:
  assumes "with_ftp L h d (\<lambda>ftp_obj. retrbinary L ftp_obj (''RETR '' @ py_format f)) s
           = (Inr cs, s')"
  shows "download_file_text L h f d s =
     (if list_all (\<lambda>b. b < 128) (concat cs)
      then Inr (map (\<lambda>b. char_of (unat b)) (concat cs))
      else Inl UnicodeDecodeError, s')"
  using assms by (simp add: download_file_text_def bind_io_def pure_io_def decode_chunks_eq)

theorem download_file_text_strict_ascii_witness:
  "fst (with_ftp (plc_lib toy_loads) ''plc-tst'' None
          (\<lambda>ftp_obj. retrbinary (plc_lib toy_loads) ftp_obj (''RETR '' @ py_format (Some ''a.txt'')))
          (plc_with ''a.txt'' ''hi'' ''/tmp/a.txt'' ''hi'')) = Inr [[104, 105]]
   \<and> fst (download_file_text (plc_lib toy_loads) ''plc-tst'' (Some ''a.txt'') None
          (plc_with ''a.txt'' ''hi'' ''/tmp/a.txt'' ''hi'')) = Inr ''hi''
   \<and> fst (with_ftp (plc_lib toy_loads) ''plc-tst'' None
          (\<lambda>ftp_obj. retrbinary (plc_lib toy_loads) ftp_obj (''RETR '' @ py_format (Some ''a.txt'')))
          (plc_with ''a.txt'' [CHR ''h'', CHR 0xFF] ''/tmp/a.txt'' ''hi'')) = Inr [[104, 255]]
   \<and> fst (download_file_text (plc_lib toy_loads) ''plc-tst'' (Some ''a.txt'') None
          (plc_with ''a.txt'' [CHR ''h'', CHR 0xFF] ''/tmp/a.txt'' ''hi'')) = Inl UnicodeDecodeError"
proof -
  let ?L = "plc_lib toy_loads"
  let ?body = "\<lambda>ftp_obj. retrbinary ?L ftp_obj (''RETR '' @ py_format (Some ''a.txt''))"
  let ?S = "plc_with ''a.txt'' ''hi'' ''/tmp/a.txt'' ''hi''"
  let ?T = "plc_with ''a.txt'' [CHR ''h'', CHR 0xFF] ''/tmp/a.txt'' ''hi''"
  have f1: "fst (with_ftp ?L ''plc-tst'' None ?body ?S) = Inr [[104, 105]]" by code_simp
  have f2: "fst (with_ftp ?L ''plc-tst'' None ?body ?T) = Inr [[104, 255]]" by code_simp
  have h1: "with_ftp ?L ''plc-tst'' None ?body ?S
            = (Inr [[104, 105]], snd (with_ftp ?L ''plc-tst'' None ?body ?S))"
    using f1 by (metis prod.collapse)
  have h2: "with_ftp ?L ''plc-tst'' None ?body ?T
            = (Inr [[104, 255]], snd (with_ftp ?L ''plc-tst'' None ?body ?T))"
    using f2 by (metis prod.collapse)
  have c: "char_of (104::nat) = CHR ''h''" "char_of (105::nat) = CHR ''i''" by code_simp+
  have r1: "fst (download_file_text ?L ''plc-tst'' (Some ''a.txt'') None ?S) = Inr ''hi''"
    using download_file_text_strict_ascii [OF h1] by (simp add: c)
  have r2: "fst (download_file_text ?L ''plc-tst'' (Some ''a.txt'') None ?T)
            = Inl UnicodeDecodeError"
    using download_file_text_strict_ascii [OF h2] by simp
  from f1 f2 r1 r2 show ?thesis by blast
qed

subsection \<open>The session and its teardown\<close>

text \<open>
  When the body of the \<^verbatim>\<open>with\<close> statement raises, the statement ends with that
  exception in the state the body left: neither \<^verbatim>\<open>quit\<close> nor \<^verbatim>\<open>close\<close> is called.
\<close>

lemma with_ftp_body_raises:
  assumes "ftp_enter L h d s = (Inr ftp_obj, s1)" and "body ftp_obj s1 = (Inl e, s2)"
  shows "with_ftp L h d body s = (Inl e, s2)"
  using assms by (simp add: with_ftp_def)

text \<open>When the body returns, the code after the \<^verbatim>\<open>yield\<close> runs.\<close>

lemma with_ftp_body_returns:
  assumes "ftp_enter L h d s = (Inr ftp_obj, s1)" and "body ftp_obj s1 = (Inr v, s2)"
  shows "with_ftp L h d body s =
           (case ftp_exit L ftp_obj s2 of (Inl e, s3) \<Rightarrow> (Inl e, s3) | (Inr u, s3) \<Rightarrow> (Inr v, s3))"
  using assms by (simp add: with_ftp_def)

text \<open>
  Claim C1, at an input where the code departs from it. The PLC accepts the
  anonymous login and has no file \<^verbatim>\<open>missing.json\<close>, so \<^verbatim>\<open>retrbinary\<close> raises
  \<^verbatim>\<open>error_perm\<close> in the body of the \<^verbatim>\<open>with\<close> statement of \<^verbatim>\<open>download_file_text\<close>. The
  exception leaves the function, and the one connection that was opened is still
  open afterwards.
\<close>

theorem body_exception_leaves_session_open:
  "fst (download_file_text (plc_lib toy_loads) ''plc-tst'' (Some ''missing.json'') None
          (plc0 [None])) = Inl error_perm
   \<and> map c_open (conns (snd (download_file_text (plc_lib toy_loads) ''plc-tst''
          (Some ''missing.json'') None (plc0 [None])))) = [True]"
  by code_simp

subsection \<open>The logins\<close>

text \<open>
  The loop tries both default credentials whatever the first login gives; the value
  left in \<^verbatim>\<open>rval\<close> is that of the last login that returned.
\<close>

lemma try_defaults_all:
  "try_defaults L c DEFAULT_PW None s =
     (case login L c (Some (''Administrator'', ''1'')) s of
        (Inl e, s1) \<Rightarrow>
          if e = error_perm then
            (case login L c (Some (''webguest'', ''1'')) s1 of
               (Inl e', s2) \<Rightarrow> if e' = error_perm then (Inr None, s2) else (Inl e', s2)
             | (Inr r', s2) \<Rightarrow> (Inr r', s2))
          else (Inl e, s1)
      | (Inr r, s1) \<Rightarrow>
          (case login L c (Some (''webguest'', ''1'')) s1 of
             (Inl e', s2) \<Rightarrow> if e' = error_perm then (Inr r, s2) else (Inl e', s2)
           | (Inr r', s2) \<Rightarrow> (Inr r', s2)))"
  by (simp add: DEFAULT_PW_def split: prod.splits sum.splits)

text \<open>
  Claim C2, at an input where the code departs from it. The PLC accepts both
  default credentials. The session opens, \<^verbatim>\<open>ftp\<close> has tried both credentials, the
  second after the first was accepted, and the session is that of the second.
\<close>

theorem login_goes_on_after_accepted_credential:
  "fst (ftp_enter (plc_lib toy_loads) ''plc-tst'' None
          (plc0 [Some (''Administrator'', ''1''), Some (''webguest'', ''1'')])) = Inr 0
   \<and> attempts (snd (ftp_enter (plc_lib toy_loads) ''plc-tst'' None
          (plc0 [Some (''Administrator'', ''1''), Some (''webguest'', ''1'')])))
       = [Some (''Administrator'', ''1''), Some (''webguest'', ''1'')]
   \<and> map c_user (conns (snd (ftp_enter (plc_lib toy_loads) ''plc-tst'' None
          (plc0 [Some (''Administrator'', ''1''), Some (''webguest'', ''1'')]))))
       = [Some (Some (''webguest'', ''1''))]"
  by code_simp

text \<open>
  When only the second default credential is accepted, the session is that of this
  credential and no login follows it.
\<close>

lemma second_credential_only:
  "fst (ftp_enter (plc_lib toy_loads) ''plc-tst'' None (plc0 [Some (''webguest'', ''1'')])) = Inr 0
   \<and> attempts (snd (ftp_enter (plc_lib toy_loads) ''plc-tst'' None
          (plc0 [Some (''webguest'', ''1'')])))
       = [Some (''Administrator'', ''1''), Some (''webguest'', ''1'')]
   \<and> map c_user (conns (snd (ftp_enter (plc_lib toy_loads) ''plc-tst'' None
          (plc0 [Some (''webguest'', ''1'')]))))
       = [Some (Some (''webguest'', ''1''))]"
  by code_simp

text \<open>
  When no default credential is accepted, what the anonymous login raises leaves
  \<^verbatim>\<open>ftp\<close> as it is; \<^verbatim>\<open>RuntimeError\<close> is raised when the anonymous login returns \<^verbatim>\<open>None\<close>.
\<close>

lemma ftp_enter_anonymous_raises:
  assumes "FTP L h s = (Inr c, s1)"
    and "try_defaults L c DEFAULT_PW None (set_pasv L c False s1) = (Inr None, s2)"
    and "login L c None s2 = (Inl e, s3)"
  shows "ftp_enter L h d s = (Inl e, s3)"
  using assms by (simp add: ftp_enter_def bind_io_def)

lemma ftp_enter_RuntimeError:
  assumes "FTP L h s = (Inr c, s1)"
    and "try_defaults L c DEFAULT_PW None (set_pasv L c False s1) = (Inr None, s2)"
    and "login L c None s2 = (Inr None, s3)"
  shows "ftp_enter L h d s = (Inl RuntimeError, s3)"
  using assms by (simp add: ftp_enter_def bind_io_def raise_io_def)

text \<open>
  Claim C4, at an input where the code departs from it. The PLC accepts no login.
  The two default credentials are passed over, the anonymous login raises
  \<^verbatim>\<open>error_perm\<close>, and this is the exception that leaves \<^verbatim>\<open>ftp\<close>, not \<^verbatim>\<open>RuntimeError\<close>.
  The connection that was opened stays open.
\<close>

theorem refused_logins_raise_error_perm:
  "fst (ftp_enter (plc_lib toy_loads) ''plc-tst'' None (plc0 [])) = Inl error_perm
   \<and> attempts (snd (ftp_enter (plc_lib toy_loads) ''plc-tst'' None (plc0 [])))
       = [Some (''Administrator'', ''1''), Some (''webguest'', ''1''), None]
   \<and> map c_open (conns (snd (ftp_enter (plc_lib toy_loads) ''plc-tst'' None (plc0 []))))
       = [True]"
  by code_simp

subsection \<open>The name of the remote file in \<^verbatim>\<open>compare_file\<close>\<close>

text \<open>With \<^verbatim>\<open>plc_filename\<close> omitted, the file asked for is the one named \<^verbatim>\<open>None\<close>.\<close>

lemma compare_file_omitted_name:
  "compare_file L h lf None d = compare_file L h lf (Some ''None'') d"
  by (simp add: compare_file_def download_file_json_dict_def download_file_text_def
      py_format_def)

text \<open>
  Claim C3, at an input where the code departs from it. The local file
  \<^verbatim>\<open>/tmp/a.json\<close> and the file \<^verbatim>\<open>a.json\<close> on the PLC hold the same document. With the
  remote name omitted the comparison raises \<^verbatim>\<open>error_perm\<close>, because the PLC has no
  file \<^verbatim>\<open>None\<close>; with the name \<^verbatim>\<open>a.json\<close> given it returns \<^verbatim>\<open>True\<close>; and with the
  name omitted it compares with the remote file \<^verbatim>\<open>None\<close> when there is one.
\<close>

theorem compare_file_omitted_name_asks_for_None:
  "fst (compare_file (plc_lib toy_loads) ''plc-tst'' ''/tmp/a.json'' None None
          (plc_with ''a.json'' ''{}'' ''/tmp/a.json'' ''{}'')) = Inl error_perm
   \<and> fst (compare_file (plc_lib toy_loads) ''plc-tst'' ''/tmp/a.json'' (Some ''a.json'') None
          (plc_with ''a.json'' ''{}'' ''/tmp/a.json'' ''{}'')) = Inr True
   \<and> fst (compare_file (plc_lib toy_loads) ''plc-tst'' ''/tmp/a.json'' None None
          (plc_with ''None'' ''{}'' ''/tmp/a.json'' ''{}'')) = Inr True"
  by code_simp

subsection \<open>Sessions on the PLC that stores files\<close>

text \<open>
  On the PLC of the instance, when the logins of \<^verbatim>\<open>ftp\<close> leave the connection logged
  in and the directory has a plain name, \<^verbatim>\<open>ftp\<close> opens a session in the directory
  asked for, and the code after the \<^verbatim>\<open>yield\<close> closes it, whether \<^verbatim>\<open>quit\<close> raises or
  not.
\<close>

lemma concat_chunks: "0 < n \<Longrightarrow> concat (chunks n xs) = xs"
proof (induction n xs rule: chunks.induct)
  case (1 n xs)
  then show ?case by (subst chunks.simps) auto
qed

lemma name_char_not_newline: "\<not> name_char (CHR 0x0D)" "\<not> name_char (CHR 0x0A)"
  by (simp_all add: name_char_def)

lemma plain_name_no_newline:
  assumes "plain_name x"
  shows "\<not> has_newline x"
proof -
  from assms have "\<forall>c\<in>set x. name_char c" by (simp add: plain_name_def list_all_iff)
  with name_char_not_newline show ?thesis unfolding has_newline_def by blast
qed

lemma plain_name_pmps: "plain_name ''pmps''"
  by (simp add: plain_name_def name_char_def)

lemma py_or_DIRECTORY:
  "py_or None DIRECTORY = ''pmps''" "py_or (Some []) DIRECTORY = ''pmps''"
  by (simp_all add: py_or_def DIRECTORY_def)

lemma no_newline_command:
  "\<not> has_newline x \<Longrightarrow> \<not> has_newline (''STOR '' @ x)"
  "\<not> has_newline x \<Longrightarrow> \<not> has_newline (''RETR '' @ x)"
  by (simp_all add: has_newline_def)

lemma plc_enter:
  assumes "plc_name s = h" and "can_login s" and "plain_name (py_or d DIRECTORY)"
  shows "\<exists>s1. ftp_enter (plc_lib ld) h d s = (Inr (length (conns s)), s1)
            \<and> same_host s s1 \<and> files s1 = files s
            \<and> length (conns s1) = Suc (length (conns s))
            \<and> logged_in s1 (length (conns s))
            \<and> c_cwd (conns s1 ! length (conns s)) = Some (py_or d DIRECTORY)
            \<and> py_or d DIRECTORY \<in> set (dirs s1)"
proof -
  note defs = ftp_enter_def bind_io_def return_io_def raise_io_def plc_lib_def DEFAULT_PW_def
    same_host_def plc_FTP_def plc_set_pasv_def plc_login_def plc_nlst_def plc_mkd_def
    plc_cwd_def live_def logged_in_def has_newline_def nth_append
  have nl: "\<not> has_newline (py_or d DIRECTORY)"
    using assms(3) by (rule plain_name_no_newline)
  have ne: "h \<noteq> []" using assms(1,2) by (auto simp: can_login_def)
  consider
      (both) "Some (''Administrator'', ''1'') \<in> set (accepts s)"
             "Some (''webguest'', ''1'') \<in> set (accepts s)"
    | (guest) "Some (''Administrator'', ''1'') \<notin> set (accepts s)"
              "Some (''webguest'', ''1'') \<in> set (accepts s)"
    | (anon) "Some (''Administrator'', ''1'') \<notin> set (accepts s)"
             "Some (''webguest'', ''1'') \<notin> set (accepts s)" "None \<in> set (accepts s)"
    using assms(2) by (auto simp: can_login_def)
  then show ?thesis
  proof cases
    case both
    show ?thesis
    proof (cases "py_or d DIRECTORY \<in> set (dirs s)")
      case True
      with both assms(1,3) nl ne show ?thesis by (simp add: defs)
    next
      case False
      with both assms(1,3) nl ne show ?thesis by (simp add: defs)
    qed
  next
    case guest
    show ?thesis
    proof (cases "py_or d DIRECTORY \<in> set (dirs s)")
      case True
      with guest assms(1,3) nl ne show ?thesis by (simp add: defs)
    next
      case False
      with guest assms(1,3) nl ne show ?thesis by (simp add: defs)
    qed
  next
    case anon
    show ?thesis
    proof (cases "py_or d DIRECTORY \<in> set (dirs s)")
      case True
      with anon assms(1,3) nl ne show ?thesis by (simp add: defs)
    next
      case False
      with anon assms(1,3) nl ne show ?thesis by (simp add: defs)
    qed
  qed
qed

lemma plc_exit:
  assumes "logged_in s c"
  shows "\<exists>s1. ftp_exit (plc_lib ld) c s = (Inr (), s1) \<and> same_host s s1 \<and> files s1 = files s
            \<and> \<not> c_open (conns s1 ! c)"
  using assms
  by (auto simp: ftp_exit_def plc_lib_def plc_quit_def plc_close_def live_def logged_in_def
      same_host_def split: option.splits)

lemma same_host_trans: "same_host s s1 \<Longrightarrow> same_host s1 s2 \<Longrightarrow> same_host s s2"
  by (simp add: same_host_def)

lemma plc_upload:
  assumes "plc_name s = h" and "can_login s"
    and "plain_name (py_or d DIRECTORY)" and "plain_name N"
  shows "\<exists>s'. upload_file (plc_lib ld) h N B d s = (Inr (), s') \<and> same_host s s'
            \<and> files s' = AList.update (py_or d DIRECTORY, N) (now s, B) (files s)"
proof -
  let ?c = "length (conns s)"
  from plc_enter [OF assms(1-3), of ld] obtain s1 where
    e: "ftp_enter (plc_lib ld) h d s = (Inr ?c, s1)" and h1: "same_host s s1"
    and f1: "files s1 = files s" and o1: "logged_in s1 ?c"
    and w1: "c_cwd (conns s1 ! ?c) = Some (py_or d DIRECTORY)"
    by blast
  let ?s2 = "s1\<lparr>files := AList.update (py_or d DIRECTORY, N) (now s1, B) (files s1)\<rparr>"
  have b: "storbinary (plc_lib ld) ?c (''STOR '' @ N) B s1 = (Inr (), ?s2)"
    using o1 w1 assms(4) no_newline_command(1) [OF plain_name_no_newline [OF assms(4)]]
    by (simp add: plc_lib_def plc_storbinary_def logged_in_def)
  have "logged_in ?s2 ?c" using o1 by (simp add: logged_in_def live_def)
  from plc_exit [OF this, of ld] obtain s3 where
    x: "ftp_exit (plc_lib ld) ?c ?s2 = (Inr (), s3)" and h3: "same_host ?s2 s3"
    and f3: "files s3 = files ?s2" by blast
  have "upload_file (plc_lib ld) h N B d s = (Inr (), s3)"
    using e b x by (simp add: upload_file_def with_ftp_def)
  moreover have "same_host s s3" using h1 h3 by (simp add: same_host_def)
  moreover have "files s3 = AList.update (py_or d DIRECTORY, N) (now s, B) (files s)"
    using f3 f1 h1 by (simp add: same_host_def)
  ultimately show ?thesis by blast
qed

lemma plc_download:
  assumes "plc_name s = h" and "can_login s"
    and "plain_name (py_or d DIRECTORY)" and "plain_name N"
    and "map_of (files s) (py_or d DIRECTORY, N) = Some (t, B)"
  shows "\<exists>s'. download_file_text (plc_lib ld) h (Some N) d s = (decode_ascii B, s')
            \<and> same_host s s' \<and> files s' = files s"
proof -
  let ?c = "length (conns s)"
  from plc_enter [OF assms(1-3), of ld] obtain s1 where
    e: "ftp_enter (plc_lib ld) h d s = (Inr ?c, s1)" and h1: "same_host s s1"
    and f1: "files s1 = files s" and o1: "logged_in s1 ?c"
    and w1: "c_cwd (conns s1 ! ?c) = Some (py_or d DIRECTORY)"
    by blast
  have b: "retrbinary (plc_lib ld) ?c (''RETR '' @ py_format (Some N)) s1
           = (Inr (chunks 8192 B), s1)"
    using o1 w1 assms(4,5) f1 no_newline_command(2) [OF plain_name_no_newline [OF assms(4)]]
    by (simp add: plc_lib_def plc_retrbinary_def logged_in_def py_format_def)
  from plc_exit [OF o1, of ld] obtain s3 where
    x: "ftp_exit (plc_lib ld) ?c s1 = (Inr (), s3)" and h3: "same_host s1 s3"
    and f3: "files s3 = files s1" by blast
  have d: "decode_chunks [] (chunks 8192 B) = decode_ascii B"
    by (simp add: decode_chunks_eq concat_chunks decode_ascii_def)
  have "download_file_text (plc_lib ld) h (Some N) d s = (decode_ascii B, s3)"
    using e b x d by (simp add: download_file_text_def with_ftp_def bind_io_def pure_io_def)
  moreover have "same_host s s3" using h1 h3 by (simp add: same_host_def)
  moreover have "files s3 = files s" using f3 f1 by simp
  ultimately show ?thesis by blast
qed

text \<open>When the body returns, the session is closed afterwards, also when \<^verbatim>\<open>quit\<close> raises.\<close>

lemma plc_session_released_on_return:
  assumes "plc_name s = h" and "can_login s" and "plain_name (py_or d DIRECTORY)"
  shows "\<exists>names s'. list_filenames (plc_lib ld) h d s = (Inr names, s')
            \<and> \<not> c_open (conns s' ! length (conns s))"
proof -
  let ?c = "length (conns s)"
  from plc_enter [OF assms, of ld] obtain s1 where
    e: "ftp_enter (plc_lib ld) h d s = (Inr ?c, s1)" and o1: "logged_in s1 ?c"
    and w1: "c_cwd (conns s1 ! ?c) = Some (py_or d DIRECTORY)"
    by blast
  obtain names where b: "nlst (plc_lib ld) ?c s1 = (Inr names, s1)"
    using o1 w1 by (simp add: plc_lib_def plc_nlst_def logged_in_def)
  from plc_exit [OF o1, of ld] obtain s3 where
    x: "ftp_exit (plc_lib ld) ?c s1 = (Inr (), s3)" and c3: "\<not> c_open (conns s3 ! ?c)"
    by blast
  have "list_filenames (plc_lib ld) h d s = (Inr names, s3)"
    using e b x by (simp add: list_filenames_def with_ftp_def)
  with c3 show ?thesis by blast
qed

text \<open>
  When only the first default credential is accepted, the second login is refused
  and flushes the first: the session is not opened.
\<close>

lemma first_credential_only:
  "fst (ftp_enter (plc_lib toy_loads) ''plc-tst'' None
          (plc0 [Some (''Administrator'', ''1'')])) = Inl error_perm"
  by code_simp

lemma can_login_same: "same_host s s' \<Longrightarrow> can_login s' = can_login s"
  by (simp add: same_host_def can_login_def)

lemma plc_roundtrip_once:
  assumes "plc_name s = h" and "can_login s"
    and "plain_name (py_or d DIRECTORY)" and "plain_name N"
  shows "\<exists>s1 s2. upload_file (plc_lib ld) h N B d s = (Inr (), s1)
          \<and> download_file_text (plc_lib ld) h (Some N) d s1 = (decode_ascii B, s2)
          \<and> plc_name s2 = h \<and> can_login s2 \<and> same_host s s1"
proof -
  from plc_upload [OF assms, of ld B] obtain s1 where
    u: "upload_file (plc_lib ld) h N B d s = (Inr (), s1)" and h1: "same_host s s1"
    and f1: "files s1 = AList.update (py_or d DIRECTORY, N) (now s, B) (files s)" by blast
  have n1: "plc_name s1 = h" using h1 assms(1) by (simp add: same_host_def)
  have c1: "can_login s1" using h1 assms(2) by (simp add: can_login_same)
  have m: "map_of (files s1) (py_or d DIRECTORY, N) = Some (now s, B)"
    by (simp add: f1 update_conv')
  from plc_download [OF n1 c1 assms(3,4) m, of ld] obtain s2 where
    dl: "download_file_text (plc_lib ld) h (Some N) d s1 = (decode_ascii B, s2)"
    and h2: "same_host s1 s2" by blast
  have "plc_name s2 = h" using h2 n1 by (simp add: same_host_def)
  moreover have "can_login s2" using h2 c1 by (simp add: can_login_same)
  ultimately show ?thesis using u dl h1 by blast
qed

lemma unat_of_char: "unat (of_char c :: byte) = of_char c"
proof -
  have "(of_char c :: byte) = of_nat (of_char c)" by (simp add: of_nat_of_char)
  then have "unat (of_char c :: byte) = (of_char c :: nat) mod 256"
    by (simp only: unat_of_nat) simp
  then show ?thesis by simp
qed

lemma of_char_less_128: "(of_char c :: nat) < 128 \<longleftrightarrow> \<not> digit7 c"
  by (cases c) (auto simp: of_char_def)

lemma byte_of_char_less: "(of_char c :: byte) < 128 \<longleftrightarrow> \<not> digit7 c"
  by (simp add: word_less_nat_alt unat_of_char of_char_less_128)

lemma decode_bytes_of:
  "decode_ascii (bytes_of t) =
     (if list_all (\<lambda>c. \<not> digit7 c) t then Inr t else Inl UnicodeDecodeError)"
  by (simp add: decode_ascii_def bytes_of_def list_all_iff byte_of_char_less unat_of_char
      map_idI)

lemma plc_download_json:
  assumes "plc_name s = h" and "can_login s"
    and "plain_name (py_or d DIRECTORY)" and "plain_name N"
    and "map_of (files s) (py_or d DIRECTORY, N) = Some (t, bytes_of text)"
    and "list_all (\<lambda>c. \<not> digit7 c) text"
  shows "fst (download_file_json_dict (plc_lib ld) h (Some N) d s) = ld text"
proof -
  from plc_download [OF assms(1-5), of ld] obtain s' where
    "download_file_text (plc_lib ld) h (Some N) d s = (decode_ascii (bytes_of text), s')"
    by blast
  with assms(6) show ?thesis
    by (simp add: download_file_json_dict_def bind_io_def pure_io_def decode_bytes_of
        plc_lib_def)
qed

lemma plc_local_json:
  assumes "map_of (local_files s) path = Some (bytes_of text)"
    and "list_all (\<lambda>c. \<not> digit7 c) text"
  shows "fst (local_file_json_dict (plc_lib ld) path s) = ld text"
  using assms
  by (simp add: local_file_json_dict_def plc_lib_def plc_open_r_def plc_open_rb_def
      bind_err_def decode_bytes_of)

lemma plc_with_simps:
  "plc_name (plc_with rn rt lp lt) = ''plc-tst''"
  "can_login (plc_with rn rt lp lt)"
  "plain_name (py_or None DIRECTORY)"
  "map_of (files (plc_with rn rt lp lt)) (py_or None DIRECTORY, rn)
     = Some ((11, 4, 22, 13, 59), bytes_of rt)"
  "map_of (local_files (plc_with rn rt lp lt)) lp = Some (bytes_of lt)"
  by (simp_all add: plc_with_def plc0_def can_login_def py_or_def DIRECTORY_def
      plain_name_def name_char_def)

lemma plc_with_loads:
  assumes "list_all (\<lambda>c. \<not> digit7 c) rt" and "list_all (\<lambda>c. \<not> digit7 c) lt"
    and "plain_name rn"
  shows "fst (local_file_json_dict (plc_lib ld) lp (plc_with rn rt lp lt)) = ld lt"
    and "fst (download_file_json_dict (plc_lib ld) ''plc-tst'' (Some rn) None
               (plc_with rn rt lp lt)) = ld rt"
  using assms
  by (simp_all add: plc_local_json [OF plc_with_simps(5)]
      plc_download_json [OF plc_with_simps(1,2,3) _ plc_with_simps(4)])

text \<open>
  Claim C9, amended. Take a PLC that stores files, with a host name that is not
  empty, on which the logins of \<^verbatim>\<open>ftp\<close> end logged in, and a directory and a file name
  \<open>N\<close> that are plain names. For every byte sequence \<open>B\<close>: uploading \<open>B\<close> under \<open>N\<close>
  succeeds, and \<^verbatim>\<open>download_file_text\<close> of \<open>N\<close> from the same host and directory then
  gives the ASCII decoding of \<open>B\<close>, which is the text with the bytes of \<open>B\<close> when every
  byte is below 128 and \<^verbatim>\<open>UnicodeDecodeError\<close> otherwise. Repeating the two operations
  gives the same result, and an upload of \<open>B'\<close> under the same name replaces \<open>B\<close>: the
  download that follows gives the decoding of \<open>B'\<close>.
\<close>

theorem upload_download_roundtrip:
  assumes "plc_name s = h" and "can_login s"
    and "plain_name (py_or d DIRECTORY)" and "plain_name N"
  shows "let L = plc_lib ld;
             s1 = snd (upload_file L h N B d s);
             s2 = snd (download_file_text L h (Some N) d s1);
             s3 = snd (upload_file L h N B d s2);
             t1 = snd (upload_file L h N B' d s1)
         in fst (upload_file L h N B d s) = Inr ()
          \<and> fst (download_file_text L h (Some N) d s1)
              = (if list_all (\<lambda>b. b < 128) B then Inr (map (\<lambda>b. char_of (unat b)) B)
                 else Inl UnicodeDecodeError)
          \<and> fst (upload_file L h N B d s2) = Inr ()
          \<and> fst (download_file_text L h (Some N) d s3) = decode_ascii B
          \<and> fst (upload_file L h N B' d s1) = Inr ()
          \<and> fst (download_file_text L h (Some N) d t1) = decode_ascii B'"
proof -
  from plc_roundtrip_once [OF assms, of ld B] obtain s1 s2 where
    a: "upload_file (plc_lib ld) h N B d s = (Inr (), s1)"
       "download_file_text (plc_lib ld) h (Some N) d s1 = (decode_ascii B, s2)"
       "plc_name s2 = h" "can_login s2" and h1: "same_host s s1" by blast
  from plc_roundtrip_once [OF a(3,4) assms(3,4), of ld B] obtain s3 s4 where
    b: "upload_file (plc_lib ld) h N B d s2 = (Inr (), s3)"
       "download_file_text (plc_lib ld) h (Some N) d s3 = (decode_ascii B, s4)" by blast
  have n1: "plc_name s1 = h" using h1 assms(1) by (simp add: same_host_def)
  have c1: "can_login s1" using h1 assms(2) by (simp add: can_login_same)
  from plc_roundtrip_once [OF n1 c1 assms(3,4), of ld B'] obtain t1 t2 where
    c: "upload_file (plc_lib ld) h N B' d s1 = (Inr (), t1)"
       "download_file_text (plc_lib ld) h (Some N) d t1 = (decode_ascii B', t2)" by blast
  show ?thesis by (simp add: Let_def a b c) (simp add: decode_ascii_def)
qed

text \<open>The round trip of the two bytes of \<^verbatim>\<open>hi\<close> on a PLC that accepts the anonymous login.\<close>

theorem upload_download_roundtrip_witness:
  "plc_name (plc0 [None]) = ''plc-tst'' \<and> can_login (plc0 [None])
   \<and> plain_name (py_or None DIRECTORY) \<and> plain_name ''a.txt''
   \<and> fst (upload_file (plc_lib toy_loads) ''plc-tst'' ''a.txt'' [104, 105] None (plc0 [None]))
       = Inr ()
   \<and> fst (download_file_text (plc_lib toy_loads) ''plc-tst'' (Some ''a.txt'') None
        (snd (upload_file (plc_lib toy_loads) ''plc-tst'' ''a.txt'' [104, 105] None
               (plc0 [None])))) = Inr ''hi''"
proof -
  have n: "plc_name (plc0 [None]) = ''plc-tst''" by (simp add: plc0_def)
  have l: "can_login (plc0 [None])" by (simp add: can_login_def plc0_def)
  have p: "plain_name (py_or None DIRECTORY)" by (simp add: py_or_DIRECTORY plain_name_pmps)
  have q: "plain_name ''a.txt''" by (simp add: plain_name_def name_char_def)
  have c: "char_of (104::nat) = CHR ''h''" "char_of (105::nat) = CHR ''i''" by code_simp+
  from upload_download_roundtrip [OF n l p q, of toy_loads "[104, 105]" "[]"] n l p q
  show ?thesis by (simp add: Let_def c)
qed

text \<open>
  Claim C9 as it is written fails: the upload of the single byte 255 succeeds, and
  the download of the same name does not return it but raises \<^verbatim>\<open>UnicodeDecodeError\<close>.
\<close>

theorem roundtrip_fails_on_non_ascii_byte:
  "fst (upload_file (plc_lib toy_loads) ''plc-tst'' ''f.bin'' [255] None (plc0 [None])) = Inr ()
   \<and> fst (download_file_text (plc_lib toy_loads) ''plc-tst'' (Some ''f.bin'') None
        (snd (upload_file (plc_lib toy_loads) ''plc-tst'' ''f.bin'' [255] None (plc0 [None]))))
       = Inl UnicodeDecodeError"
  by code_simp

subsection \<open>The default directory\<close>









subsection \<open>Equality of documents\<close>

text \<open>
  The equality of two dicts with distinct keys, as \<^verbatim>\<open>==\<close> computes it, is the
  equality of the sets of keys with related values under every key.
\<close>

lemma dict_eq_iff:
  assumes da: "distinct (map fst a)" and db: "distinct (map fst b)"
  shows "(length a = length b \<and>
          list_all (\<lambda>kv. case map_of b (fst kv) of None \<Rightarrow> False | Some w \<Rightarrow> R (snd kv) w) a)
         \<longleftrightarrow> same_items R a b"
proof
  assume L: "length a = length b \<and>
          list_all (\<lambda>kv. case map_of b (fst kv) of None \<Rightarrow> False | Some w \<Rightarrow> R (snd kv) w) a"
  then have all: "\<And>k v. (k, v) \<in> set a \<Longrightarrow> \<exists>w. map_of b k = Some w \<and> R v w"
    by (fastforce simp: list_all_iff split: option.splits)
  have sub: "fst ` set a \<subseteq> fst ` set b"
  proof
    fix k assume "k \<in> fst ` set a"
    then obtain v where "(k, v) \<in> set a" by auto
    from all[OF this] obtain w where "map_of b k = Some w" by blast
    then have "(k, w) \<in> set b" by (rule map_of_SomeD)
    then show "k \<in> fst ` set b" by force
  qed
  have "card (fst ` set a) = length a" using da by (metis distinct_card length_map set_map)
  moreover have "card (fst ` set b) = length b" using db by (metis distinct_card length_map set_map)
  ultimately have "card (fst ` set a) = card (fst ` set b)" using L by simp
  with sub have keys: "fst ` set a = fst ` set b"
    by (simp add: card_subset_eq)
  have "R v w" if "map_of a k = Some v" "map_of b k = Some w" for k v w
  proof -
    from that(1) have "(k, v) \<in> set a" by (rule map_of_SomeD)
    from all[OF this] that(2) show ?thesis by simp
  qed
  with keys show "same_items R a b" by (auto simp: same_items_def)
next
  assume S: "same_items R a b"
  then have keys: "fst ` set a = fst ` set b" by (simp add: same_items_def)
  have "length a = card (fst ` set a)" using da by (metis distinct_card length_map set_map)
  moreover have "length b = card (fst ` set b)" using db by (metis distinct_card length_map set_map)
  ultimately have len: "length a = length b" using keys by simp
  have "case map_of b (fst kv) of None \<Rightarrow> False | Some w \<Rightarrow> R (snd kv) w" if "kv \<in> set a" for kv
  proof -
    from that da have ma: "map_of a (fst kv) = Some (snd kv)" by simp
    from that keys have "fst kv \<in> fst ` set b" by auto
    then obtain w where mb: "map_of b (fst kv) = Some w"
      by (metis map_of_eq_None_iff not_Some_eq)
    with ma S have "R (snd kv) w" by (auto simp: same_items_def)
    with mb show ?thesis by simp
  qed
  then have "list_all (\<lambda>kv. case map_of b (fst kv) of None \<Rightarrow> False | Some w \<Rightarrow> R (snd kv) w) a"
    by (simp add: list_all_iff)
  with len show "length a = length b \<and>
          list_all (\<lambda>kv. case map_of b (fst kv) of None \<Rightarrow> False | Some w \<Rightarrow> R (snd kv) w) a" by simp
qed

lemma py_eq_dict_iff:
  "distinct (map fst a) \<Longrightarrow> distinct (map fst b) \<Longrightarrow>
   py_eq_in (JDict a) (JDict b) \<longleftrightarrow> same_items py_eq_in a b"
  using dict_eq_iff [of a b py_eq_in] by simp

lemma py_eq_dict: "py_eq (JDict a) (JDict b) = py_eq_in (JDict a) (JDict b)"
  by (simp add: py_eq_def)

lemma py_eq_scalar: "is_scalar v \<Longrightarrow> is_scalar w \<Longrightarrow> py_eq_in v w = same_value v w"
  by (cases v; cases w) (simp_all add: same_value_def)

lemma same_items_cong:
  assumes "\<And>k v w. map_of a k = Some v \<Longrightarrow> map_of b k = Some w \<Longrightarrow> R v w = R' v w"
  shows "same_items R a b = same_items R' a b"
  using assms by (auto simp: same_items_def)

lemma is_params_lookup:
  assumes "is_params (JDict p)" "map_of p n = Some v"
  shows "is_scalar v"
proof -
  from assms(2) have "(n, v) \<in> set p" by (rule map_of_SomeD)
  with assms(1) show ?thesis by (auto simp: is_params_def list_all_iff)
qed

lemma py_eq_params:
  assumes "is_params v" "is_params w"
  shows "py_eq_in v w = params_equal v w"
proof -
  from assms obtain p q where v: "v = JDict p" and w: "w = JDict q"
    by (auto simp: is_params_def split: json.splits)
  from assms v w have d: "distinct (map fst p)" "distinct (map fst q)"
    by (simp_all add: is_params_def)
  have "py_eq_in (JDict p) (JDict q) = same_items py_eq_in p q"
    using d by (rule py_eq_dict_iff)
  also have "\<dots> = same_items same_value p q"
    using assms v w by (intro same_items_cong py_eq_scalar) (auto dest: is_params_lookup)
  finally have "py_eq_in (JDict p) (JDict q) = same_items same_value p q" .
  then show ?thesis unfolding v w params_equal_def json.case .
qed

lemma is_config_lookup:
  assumes "is_config (JDict a)" "map_of a k = Some v"
  shows "is_params v"
proof -
  from assms(2) have "(k, v) \<in> set a" by (rule map_of_SomeD)
  with assms(1) show ?thesis by (auto simp: is_config_def list_all_iff)
qed

lemma py_eq_config:
  assumes "is_config (JDict a)" "is_config (JDict b)"
  shows "py_eq (JDict a) (JDict b) = structurally_equal a b"
proof -
  from assms have d: "distinct (map fst a)" "distinct (map fst b)"
    by (simp_all add: is_config_def)
  have "py_eq (JDict a) (JDict b) = py_eq_in (JDict a) (JDict b)" by (rule py_eq_dict)
  also have "\<dots> = same_items py_eq_in a b"
    using d by (rule py_eq_dict_iff)
  also have "\<dots> = same_items params_equal a b"
    using assms by (intro same_items_cong py_eq_params) (auto dest: is_config_lookup)
  finally show ?thesis unfolding structurally_equal_def .
qed

text \<open>Reordering the entries of a document, at either level, changes nothing.\<close>

lemma same_items_map_of:
  assumes "map_of a' = map_of a" "map_of b' = map_of b"
  shows "same_items R a' b' = same_items R a b"
proof -
  have "fst ` set a' = fst ` set a" using assms(1) by (metis dom_map_of_conv_image_fst)
  moreover have "fst ` set b' = fst ` set b" using assms(2) by (metis dom_map_of_conv_image_fst)
  ultimately show ?thesis using assms by (simp add: same_items_def)
qed

lemma mset_map_of:
  assumes "distinct (map fst p)" "distinct (map fst q)" "mset p = mset q"
  shows "map_of p = map_of q"
  using assms by (metis map_of_inject_set mset_eq_setD)

lemma params_equal_items:
  assumes "is_params v" "is_params v'" "items_of v' = items_of v"
  shows "params_equal v' w = params_equal v w" "params_equal w v' = params_equal w v"
proof -
  from assms obtain p p' where v: "v = JDict p" "v' = JDict p'"
    by (auto simp: is_params_def split: json.splits)
  with assms have "map_of p' = map_of p"
    by (intro mset_map_of) (simp_all add: is_params_def items_of_def)
  then have A: "same_items same_value p' q = same_items same_value p q"
    and B: "same_items same_value q p' = same_items same_value q p" for q
    by (intro same_items_map_of refl; assumption)+
  show "params_equal v' w = params_equal v w"
    unfolding v params_equal_def by (cases w) (simp_all add: A)
  show "params_equal w v' = params_equal w v"
    unfolding v params_equal_def by (cases w) (simp_all add: B)
qed

lemma doc_items_lookup:
  assumes ca: "is_config (JDict a)" and ca': "is_config (JDict a')"
    and eq: "doc_items a' = doc_items a" and m: "map_of a k = Some v"
  shows "\<exists>v'. map_of a' k = Some v' \<and> items_of v' = items_of v"
proof -
  from m have "(k, v) \<in> set a" by (rule map_of_SomeD)
  then have "(k, items_of v) \<in> set (map (\<lambda>kv. (fst kv, items_of (snd kv))) a)" by force
  also have "set (map (\<lambda>kv. (fst kv, items_of (snd kv))) a)
           = set (map (\<lambda>kv. (fst kv, items_of (snd kv))) a')"
    using eq [symmetric] unfolding doc_items_def by (rule mset_eq_setD)
  finally obtain v' where in': "(k, v') \<in> set a'" and it: "items_of v' = items_of v" by auto
  from ca' have "distinct (map fst a')" by (simp add: is_config_def)
  with in' have "map_of a' k = Some v'" by simp
  with it show ?thesis by blast
qed

lemma doc_items_keys:
  assumes "doc_items a' = doc_items a"
  shows "fst ` set a' = fst ` set a"
proof -
  have "set (map (\<lambda>kv. (fst kv, items_of (snd kv))) a')
      = set (map (\<lambda>kv. (fst kv, items_of (snd kv))) a)"
    using assms unfolding doc_items_def by (rule mset_eq_setD)
  then have "fst ` set (map (\<lambda>kv. (fst kv, items_of (snd kv))) a')
           = fst ` set (map (\<lambda>kv. (fst kv, items_of (snd kv))) a)" by simp
  then show ?thesis by (simp add: image_image)
qed

lemma structurally_equal_reorder_imp:
  assumes ca: "is_config (JDict a)" and ca': "is_config (JDict a')"
    and eq: "doc_items a' = doc_items a" and S: "structurally_equal a b"
  shows "structurally_equal a' b"
  unfolding structurally_equal_def same_items_def
proof (intro conjI allI impI)
  have "fst ` set a = fst ` set b"
    using S by (simp add: structurally_equal_def same_items_def)
  with doc_items_keys [OF eq] show "fst ` set a' = fst ` set b" by simp
next
  fix k v w
  assume kv: "map_of a' k = Some v \<and> map_of b k = Some w"
  then have m': "map_of a' k = Some v" and mb: "map_of b k = Some w" by simp_all
  from doc_items_lookup [OF ca' ca eq [symmetric] m']
  obtain v0 where v0: "map_of a k = Some v0" and it: "items_of v0 = items_of v" by blast
  have "params_equal v0 w"
    using S v0 mb unfolding structurally_equal_def same_items_def by blast
  moreover have "is_params v0" using ca v0 by (rule is_config_lookup)
  moreover have "is_params v" using ca' m' by (rule is_config_lookup)
  ultimately show "params_equal v w"
    using params_equal_items(1) [of v0 v w] it by simp
qed

lemma structurally_equal_reorder_left:
  assumes ca: "is_config (JDict a)" and ca': "is_config (JDict a')"
    and eq: "doc_items a' = doc_items a"
  shows "structurally_equal a' b = structurally_equal a b"
proof
  assume "structurally_equal a' b"
  with ca' ca eq [symmetric] show "structurally_equal a b"
    by (rule structurally_equal_reorder_imp)
next
  assume "structurally_equal a b"
  with ca ca' eq show "structurally_equal a' b"
    by (rule structurally_equal_reorder_imp)
qed

lemma same_items_flip:
  assumes sym: "\<And>v w. R v w \<Longrightarrow> R w v" and ab: "same_items R a b"
  shows "same_items R b a"
  unfolding same_items_def
proof (intro conjI allI impI)
  show "fst ` set b = fst ` set a" using ab by (simp add: same_items_def)
next
  fix k v w
  assume "map_of b k = Some v \<and> map_of a k = Some w"
  with ab have "R w v" unfolding same_items_def by blast
  then show "R v w" by (rule sym)
qed

lemma same_items_sym:
  assumes "\<And>v w. R v w = R w v"
  shows "same_items R a b = same_items R b a"
proof
  assume "same_items R a b"
  then show "same_items R b a" by (rule same_items_flip [rotated]) (subst assms)
next
  assume "same_items R b a"
  then show "same_items R a b" by (rule same_items_flip [rotated]) (subst assms)
qed

lemma same_value_sym: "same_value v w = same_value w v"
  by (auto simp: same_value_def split: option.splits)

lemma params_equal_sym: "params_equal v w = params_equal w v"
  by (cases v; cases w)
     (simp_all add: params_equal_def, rule same_items_sym, rule same_value_sym)

lemma structurally_equal_sym: "structurally_equal a b = structurally_equal b a"
  unfolding structurally_equal_def by (rule same_items_sym) (rule params_equal_sym)

lemma structurally_equal_reorder:
  assumes "is_config (JDict a)" "is_config (JDict a')" "doc_items a' = doc_items a"
    and "is_config (JDict b)" "is_config (JDict b')" "doc_items b' = doc_items b"
  shows "structurally_equal a' b' = structurally_equal a b"
proof -
  have "structurally_equal a' b' = structurally_equal a b'"
    using assms(1-3) by (rule structurally_equal_reorder_left)
  also have "\<dots> = structurally_equal b' a" by (rule structurally_equal_sym)
  also have "\<dots> = structurally_equal b a"
    using assms(4-6) by (rule structurally_equal_reorder_left)
  also have "\<dots> = structurally_equal a b" by (rule structurally_equal_sym)
  finally show ?thesis .
qed

lemma snd_local_file_json_dict: "snd (local_file_json_dict L lf s) = s"
  by (simp add: local_file_json_dict_def)

lemma compare_file_result:
  assumes "fst (local_file_json_dict L lf s) = Inr x"
    and "download_file_json_dict L h pf d s = (Inr y, s')"
  shows "compare_file L h lf pf d s = (Inr (py_eq x y), s')"
proof -
  have "local_file_json_dict L lf s = (Inr x, s)"
    using assms(1) snd_local_file_json_dict [of L lf s] by (metis prod.collapse)
  with assms(2) show ?thesis
    by (simp add: compare_file_def bind_io_def return_io_def)
qed

text \<open>
  Claim C5, amended. When both files load as ConfigDocuments, \<^verbatim>\<open>compare_file\<close>
  returns whether they are structurally equal: the same set of top-level keys and,
  under each key, the same set of parameter names with the same values. Two values
  that are booleans or numbers are the same when they are the same number, whatever
  their types: true is 1, false is 0, and an integer is the same as the float of
  its value. Any other two values are the same when they have the same type and
  value. The result does not depend on the order of the entries at either level,
  and a string is never equal to a number.
\<close>

theorem compare_file_structural:
  assumes "fst (local_file_json_dict L lf s) = Inr (JDict a)"
    and "download_file_json_dict L h pf d s = (Inr (JDict b), s')"
    and "is_config (JDict a)" and "is_config (JDict b)"
  shows "compare_file L h lf pf d s = (Inr (structurally_equal a b), s')
    \<and> (\<forall>a' b'. is_config (JDict a') \<and> doc_items a' = doc_items a \<and>
                is_config (JDict b') \<and> doc_items b' = doc_items b
          \<longrightarrow> py_eq (JDict a') (JDict b') = py_eq (JDict a) (JDict b))
    \<and> \<not> py_eq (JStr t) (JInt n) \<and> \<not> py_eq (JInt n) (JStr t)
    \<and> \<not> py_eq (JStr t) (JFloat m e) \<and> \<not> py_eq (JFloat m e) (JStr t)"
proof -
  have "compare_file L h lf pf d s = (Inr (py_eq (JDict a) (JDict b)), s')"
    using assms(1,2) by (rule compare_file_result)
  then have one: "compare_file L h lf pf d s = (Inr (structurally_equal a b), s')"
    using assms(3,4) by (simp only: py_eq_config)
  have two: "py_eq (JDict a') (JDict b') = py_eq (JDict a) (JDict b)"
    if "is_config (JDict a')" "doc_items a' = doc_items a"
       "is_config (JDict b')" "doc_items b' = doc_items b" for a' b'
  proof -
    have "py_eq (JDict a') (JDict b') = structurally_equal a' b'"
      using that(1,3) by (rule py_eq_config)
    also have "\<dots> = structurally_equal a b"
      using assms(3) that(1,2) assms(4) that(3,4) by (rule structurally_equal_reorder)
    also have "\<dots> = py_eq (JDict a) (JDict b)"
      using assms(3,4) by (rule py_eq_config [symmetric])
    finally show ?thesis .
  qed
  have three: "\<not> py_eq (JStr t) (JInt n)" "\<not> py_eq (JInt n) (JStr t)"
    "\<not> py_eq (JStr t) (JFloat m e)" "\<not> py_eq (JFloat m e) (JStr t)"
    by (simp_all add: py_eq_def)
  show ?thesis
  proof (intro conjI allI impI)
    show "compare_file L h lf pf d s = (Inr (structurally_equal a b), s')" by (rule one)
  next
    fix a' b'
    assume H: "is_config (JDict a') \<and> doc_items a' = doc_items a \<and>
               is_config (JDict b') \<and> doc_items b' = doc_items b"
    show "py_eq (JDict a') (JDict b') = py_eq (JDict a) (JDict b)"
      by (rule two) (use H in blast)+
  next
    show "\<not> py_eq (JStr t) (JInt n)" by (rule three)
  next
    show "\<not> py_eq (JInt n) (JStr t)" by (rule three)
  next
    show "\<not> py_eq (JStr t) (JFloat m e)" by (rule three)
  next
    show "\<not> py_eq (JFloat m e) (JStr t)" by (rule three)
  qed
qed

text \<open>
  Two documents with the same entries in another order, at both levels: one in the
  local file, one on the PLC.
\<close>

theorem compare_file_structural_witness:
  \<open>fst (local_file_json_dict (plc_lib toy_loads) ''/tmp/a.json''
          (plc_with ''a.json'' ''{"d": {}, "a": {"c": 2, "b": 1}}''
                    ''/tmp/a.json'' ''{"a": {"b": 1, "c": 2}, "d": {}}''))
     = Inr (JDict [(''a'', JDict [(''b'', JInt 1), (''c'', JInt 2)]), (''d'', JDict [])])
   \<and> fst (download_file_json_dict (plc_lib toy_loads) ''plc-tst'' (Some ''a.json'') None
          (plc_with ''a.json'' ''{"d": {}, "a": {"c": 2, "b": 1}}''
                    ''/tmp/a.json'' ''{"a": {"b": 1, "c": 2}, "d": {}}''))
     = Inr (JDict [(''d'', JDict []), (''a'', JDict [(''c'', JInt 2), (''b'', JInt 1)])])
   \<and> is_config (JDict [(''a'', JDict [(''b'', JInt 1), (''c'', JInt 2)]), (''d'', JDict [])])
   \<and> is_config (JDict [(''d'', JDict []), (''a'', JDict [(''c'', JInt 2), (''b'', JInt 1)])])
   \<and> fst (compare_file (plc_lib toy_loads) ''plc-tst'' ''/tmp/a.json'' (Some ''a.json'') None
          (plc_with ''a.json'' ''{"d": {}, "a": {"c": 2, "b": 1}}''
                    ''/tmp/a.json'' ''{"a": {"b": 1, "c": 2}, "d": {}}''))
     = Inr True
   \<and> structurally_equal
         [(''a'', JDict [(''b'', JInt 1), (''c'', JInt 2)]), (''d'', JDict [])]
         [(''d'', JDict []), (''a'', JDict [(''c'', JInt 2), (''b'', JInt 1)])]\<close>
proof -
  let ?L = "plc_lib toy_loads"
  let ?S = \<open>plc_with ''a.json'' ''{"d": {}, "a": {"c": 2, "b": 1}}''
                     ''/tmp/a.json'' ''{"a": {"b": 1, "c": 2}, "d": {}}''\<close>
  let ?a = "[(''a'', JDict [(''b'', JInt 1), (''c'', JInt 2)]), (''d'', JDict [])]"
  let ?b = "[(''d'', JDict []), (''a'', JDict [(''c'', JInt 2), (''b'', JInt 1)])]"
  have l: "fst (local_file_json_dict ?L ''/tmp/a.json'' ?S) = Inr (JDict ?a)"
    by (subst plc_with_loads(1)) (simp_all add: toy_loads_def plain_name_def name_char_def)
  have r: "fst (download_file_json_dict ?L ''plc-tst'' (Some ''a.json'') None ?S) = Inr (JDict ?b)"
    by (subst plc_with_loads(2)) (simp_all add: toy_loads_def plain_name_def name_char_def)
  have r': "download_file_json_dict ?L ''plc-tst'' (Some ''a.json'') None ?S
            = (Inr (JDict ?b), snd (download_file_json_dict ?L ''plc-tst'' (Some ''a.json'') None ?S))"
    using r by (metis prod.collapse)
  have ca: "is_config (JDict ?a)" by (simp add: is_config_def is_params_def)
  have cb: "is_config (JDict ?b)" by (simp add: is_config_def is_params_def)
  have e: "py_eq (JDict ?a) (JDict ?b)" by (simp add: py_eq_def)
  then have se: "structurally_equal ?a ?b" using ca cb by (simp only: py_eq_config)
  from compare_file_structural [OF l r' ca cb] se
  have c: "fst (compare_file ?L ''plc-tst'' ''/tmp/a.json'' (Some ''a.json'') None ?S) = Inr True"
    by simp
  from l r ca cb c se show ?thesis by (intro conjI)
qed

text \<open>
  Claim C5 as it is written fails: the local document has the boolean \<^verbatim>\<open>true\<close> where
  the document on the PLC has the number 1, the two values differ in type, and
  \<^verbatim>\<open>compare_file\<close> returns \<^verbatim>\<open>True\<close>.
\<close>

theorem compare_file_bool_equals_number:
  \<open>fst (compare_file (plc_lib toy_loads) ''plc-tst'' ''/tmp/a.json'' (Some ''a.json'') None
          (plc_with ''a.json'' ''{"a": {"b": 1}}'' ''/tmp/a.json'' ''{"a": {"b": true}}''))
     = Inr True
   \<and> toy_loads ''{"a": {"b": true}}'' = Inr (JDict [(''a'', JDict [(''b'', JBool True)])])
   \<and> toy_loads ''{"a": {"b": 1}}'' = Inr (JDict [(''a'', JDict [(''b'', JInt 1)])])
   \<and> JBool True \<noteq> JInt 1\<close>
proof -
  let ?L = "plc_lib toy_loads"
  let ?S = \<open>plc_with ''a.json'' ''{"a": {"b": 1}}'' ''/tmp/a.json'' ''{"a": {"b": true}}''\<close>
  have t1: \<open>toy_loads ''{"a": {"b": true}}'' = Inr (JDict [(''a'', JDict [(''b'', JBool True)])])\<close>
    and t2: \<open>toy_loads ''{"a": {"b": 1}}'' = Inr (JDict [(''a'', JDict [(''b'', JInt 1)])])\<close>
    by (simp_all add: toy_loads_def)
  have l: "fst (local_file_json_dict ?L ''/tmp/a.json'' ?S)
           = Inr (JDict [(''a'', JDict [(''b'', JBool True)])])"
    by (subst plc_with_loads(1)) (simp_all add: t1 plain_name_def name_char_def)
  have r: "fst (download_file_json_dict ?L ''plc-tst'' (Some ''a.json'') None ?S)
           = Inr (JDict [(''a'', JDict [(''b'', JInt 1)])])"
    by (subst plc_with_loads(2)) (simp_all add: t2 plain_name_def name_char_def)
  have r': "download_file_json_dict ?L ''plc-tst'' (Some ''a.json'') None ?S
            = (Inr (JDict [(''a'', JDict [(''b'', JInt 1)])]),
               snd (download_file_json_dict ?L ''plc-tst'' (Some ''a.json'') None ?S))"
    using r by (metis prod.collapse)
  have "fst (compare_file ?L ''plc-tst'' ''/tmp/a.json'' (Some ''a.json'') None ?S) = Inr True"
    using compare_file_result [OF l r'] by (simp add: py_eq_def)
  with t1 t2 show ?thesis by simp
qed

text \<open>
  Numbers of different types: the integer 1 and the float 1.0 are equal, and so are
  documents that differ in this only. The object \<^verbatim>\<open>NaN\<close> is not equal to itself, but
  two lists or dicts that hold it at the same place are equal.
\<close>

lemma py_eq_numbers:
  "py_eq (JInt 1) (JFloat 1 0)" "py_eq (JBool True) (JFloat 1 0)"
  "py_eq (JFloat 1 1) (JInt 2)" "py_eq (JFloat 1 1) (JFloat 2 0)"
  "\<not> py_eq (JFloat 1 (- 1)) (JInt 0)" "\<not> py_eq (JInf True) (JInt 1)"
  "\<not> py_eq JNaN JNaN" "py_eq (JList [JNaN]) (JList [JNaN])"
  "py_eq (JDict [(''b'', JNaN)]) (JDict [(''b'', JNaN)])"
  by (simp_all add: py_eq_def)

lemma compare_file_int_equals_float:
  \<open>fst (compare_file (plc_lib toy_loads) ''plc-tst'' ''/tmp/a.json'' (Some ''a.json'') None
          (plc_with ''a.json'' ''{"a": {"b": 1.0}}'' ''/tmp/a.json'' ''{"a": {"b": 1}}''))
     = Inr True\<close>
proof -
  let ?L = "plc_lib toy_loads"
  let ?S = \<open>plc_with ''a.json'' ''{"a": {"b": 1.0}}'' ''/tmp/a.json'' ''{"a": {"b": 1}}''\<close>
  have l: "fst (local_file_json_dict ?L ''/tmp/a.json'' ?S)
           = Inr (JDict [(''a'', JDict [(''b'', JInt 1)])])"
    by (subst plc_with_loads(1)) (simp_all add: toy_loads_def plain_name_def name_char_def)
  have r: "fst (download_file_json_dict ?L ''plc-tst'' (Some ''a.json'') None ?S)
           = Inr (JDict [(''a'', JDict [(''b'', JFloat 1 0)])])"
    by (subst plc_with_loads(2)) (simp_all add: toy_loads_def plain_name_def name_char_def)
  have r': "download_file_json_dict ?L ''plc-tst'' (Some ''a.json'') None ?S
            = (Inr (JDict [(''a'', JDict [(''b'', JFloat 1 0)])]),
               snd (download_file_json_dict ?L ''plc-tst'' (Some ''a.json'') None ?S))"
    using r by (metis prod.collapse)
  show ?thesis using compare_file_result [OF l r'] by (simp add: py_eq_def)
qed

end
